theory Spec2Isabelle
  imports Main "HOL-Library.AList" "HOL-Library.Sublist" "HOL-Library.Multiset"
begin

section \<open>Python values shared by both modules\<close>

text \<open>
  Exceptions are values. Only the classes the handlers of the two modules tell apart
  are kept separate: \<open>ValueError\<close> (what a failed \<open>int(...)\<close> raises), its subclass
  \<open>JSONDecodeError\<close>, \<open>KeyError\<close>, \<open>NameError\<close>, \<open>discord.Forbidden\<close>, and every
  other subclass of \<open>Exception\<close>. The payload is the text \<open>str(e)\<close> shows.
\<close>

datatype py_exc =
    ValueError string
  | JSONDecodeError string
  | KeyError string
  | NameError string
  | Forbidden
  | OtherError string

fun exc_text :: "py_exc \<Rightarrow> string" where
  "exc_text (ValueError s) = s"
| "exc_text (JSONDecodeError s) = s"
| "exc_text (KeyError s) = s"
| "exc_text (NameError s) = s"
| "exc_text Forbidden = ''Forbidden''"
| "exc_text (OtherError s) = s"

subsection \<open>\<open>str.isdigit\<close>, \<open>str.strip\<close> and \<open>int(str)\<close>\<close>

text \<open>
  A string is a text over the code points U+0000 to U+00FF, one \<open>char\<close> for each
  code point. There \<open>str.isspace\<close>, which \<open>str.strip\<close> goes by, holds of the ASCII
  white space, of the separators U+001C to U+001F, of U+0085 and of U+00A0, while
  \<open>int\<close> skips the ASCII white space, U+0085 and U+00A0 only. \<open>str.isdigit\<close>
  holds of the decimal digits and also of the superscripts U+00B2, U+00B3 and
  U+00B9, which \<open>int\<close> does not read as digits.
\<close>

definition py_isspace :: "char \<Rightarrow> bool" where
  "py_isspace c =
     (c \<in> set [CHR 0x09, CHR 0x0A, CHR 0x0B, CHR 0x0C, CHR 0x0D,
                CHR 0x1C, CHR 0x1D, CHR 0x1E, CHR 0x1F, CHR 0x20, CHR 0x85, CHR 0xA0])"

definition int_isspace :: "char \<Rightarrow> bool" where
  "int_isspace c =
     (c \<in> set [CHR 0x09, CHR 0x0A, CHR 0x0B, CHR 0x0C, CHR 0x0D, CHR 0x20, CHR 0x85, CHR 0xA0])"

definition is_digit :: "char \<Rightarrow> bool" where
  "is_digit c = (c \<in> set ''0123456789'')"

definition is_digit_char :: "char \<Rightarrow> bool" where
  "is_digit_char c = (is_digit c \<or> c \<in> set [CHR 0xB2, CHR 0xB3, CHR 0xB9])"

definition digit_val :: "char \<Rightarrow> nat" where
  "digit_val c = of_char c - 48"

definition py_isdigit :: "string \<Rightarrow> bool" where
  "py_isdigit s = (s \<noteq> [] \<and> list_all is_digit_char s)"

definition py_strip :: "string \<Rightarrow> string" where
  "py_strip s = rev (dropWhile py_isspace (rev (dropWhile py_isspace s)))"

definition int_strip :: "string \<Rightarrow> string" where
  "int_strip s = rev (dropWhile int_isspace (rev (dropWhile int_isspace s)))"

text \<open>
  \<open>int(s)\<close> skips white space at both ends, takes an optional sign and then decimal
  digits that single underscores may separate; anything else raises \<open>ValueError\<close>
  (\<open>None\<close> here).
\<close>

text \<open>
  The digits after the sign, scanned as CPython does: \<open>prev\<close> tells whether the
  character before was a digit, so that an underscore is accepted only between two
  digits and the text neither is empty nor ends in an underscore.
\<close>

fun int_body :: "bool \<Rightarrow> string \<Rightarrow> bool" where
  "int_body prev [] = prev"
| "int_body prev (c # cs) =
     (if is_digit c then int_body True cs
      else if c = CHR ''_'' then prev \<and> int_body False cs
      else False)"

definition valid_int_body :: "string \<Rightarrow> bool" where
  "valid_int_body s = int_body False s"

definition digits_value :: "string \<Rightarrow> nat" where
  "digits_value s = foldl (\<lambda>n c. 10 * n + digit_val c) 0 (filter is_digit s)"

definition py_int :: "string \<Rightarrow> int option" where
  "py_int s =
     (case int_strip s of
        [] \<Rightarrow> None
      | c # cs \<Rightarrow>
          if c = CHR ''-'' then
            (if valid_int_body cs then Some (- int (digits_value cs)) else None)
          else if c = CHR ''+'' then
            (if valid_int_body cs then Some (int (digits_value cs)) else None)
          else if valid_int_body (c # cs) then Some (int (digits_value (c # cs)))
          else None)"

text \<open>\<open>int(d.get(key, 0))\<close>: the default \<open>0\<close> when the key is absent.\<close>

definition py_int_default :: "string option \<Rightarrow> py_exc + int" where
  "py_int_default v =
     (case v of
        None \<Rightarrow> Inr 0
      | Some s \<Rightarrow> (case py_int s of None \<Rightarrow> Inl (ValueError s) | Some n \<Rightarrow> Inr n))"

section \<open>bot\_cloner.py: data\<close>

text \<open>
  The JSON objects of the source server, as the code reads them: a key read with
  \<open>d['k']\<close> is a field, a key read with \<open>d.get('k')\<close> is an optional field.
  The role name is read both ways, so it is optional here and \<open>role['name']\<close>
  raises \<open>KeyError\<close> when it is absent.
\<close>

record overwrite_json =
  ow_type :: int
  ow_id :: string
  ow_allow :: "string option"
  ow_deny :: "string option"

record role_json =
  r_id :: string
  r_name :: "string option"
  r_managed :: "bool option"
  r_position :: "int option"
  r_permissions :: "string option"
  r_color :: "int option"
  r_hoist :: "bool option"
  r_mentionable :: "bool option"

record channel_json =
  c_id :: string
  c_type :: "int option"
  c_name :: string
  c_parent_id :: "string option"
  c_position :: "int option"
  c_topic :: "string option"
  c_rate_limit_per_user :: "int option"
  c_nsfw :: "bool option"
  c_user_limit :: "int option"
  c_bitrate :: "int option"
  c_permission_overwrites :: "overwrite_json list option"

text \<open>
  New roles and categories are handles of the destination server. A Python \<open>dict\<close>
  is an association list: \<open>AList.update\<close> overwrites in place or appends, as
  assignment to a \<open>dict\<close> does, and \<open>map_of\<close> is the lookup.
\<close>

type_synonym role_handle = nat
type_synonym category_handle = nat
type_synonym role_mapping = "(int \<times> role_handle) list"
type_synonym category_mapping = "(int \<times> category_handle) list"
type_synonym overwrites = "(role_handle \<times> int \<times> int) list"

record role_kwargs =
  rk_name :: string
  rk_permissions :: int
  rk_color :: int
  rk_hoist :: bool
  rk_mentionable :: bool
  rk_reason_user :: string

record category_kwargs =
  cat_name :: string
  cat_overwrites :: overwrites
  cat_reason_user :: string

record channel_kwargs =
  ch_name :: string
  ch_overwrites :: overwrites
  ch_category :: "category_handle option"
  ch_reason_user :: string

record text_kwargs = channel_kwargs +
  ch_topic :: "string option"
  ch_slowmode_delay :: "int option"
  ch_nsfw :: bool

record voice_kwargs = channel_kwargs +
  ch_user_limit :: "int option"
  ch_bitrate :: "int option"

datatype write_call =
    CreateRole role_kwargs
  | CreateCategory category_kwargs
  | CreateTextChannel text_kwargs
  | CreateVoiceChannel voice_kwargs
  | CreateStageChannel channel_kwargs

datatype api_outcome = Created nat | RaiseForbidden | RaiseOther string

record http_request =
  rq_method :: string
  rq_url :: string
  rq_authorization :: string
  rq_content_type :: string
  rq_json :: "string option"

record http_response =
  status_code :: int
  body :: string

text \<open>The follow-up messages, by kind and by the values their f-strings insert.\<close>

datatype message =
    MsgDestNotFound string
  | MsgNeedAdmin
  | MsgStart string string
  | MsgRolesFetchFailed int
  | MsgCopyingRoles nat
  | MsgRoleForbidden string
  | MsgRoleError string string
  | MsgRolesCopied
  | MsgChannelsFetchFailed int
  | MsgCopyingChannels nat
  | MsgCategoryForbidden string
  | MsgCategoryError string string
  | MsgChannelForbidden string
  | MsgChannelError string string
  | MsgChannelsCopied
  | MsgCloneDone string string
  | MsgInvalidId string
  | MsgUnexpected string

datatype log_line =
    LogOverwriteId string
  | LogParentId string
  | LogRoleError string
  | LogCategoryError string
  | LogChannelError string
  | LogCloneError string

text \<open>
  What one invocation does to the outside, in order: the deferred acknowledgement,
  follow-up messages (with their \<open>ephemeral\<close> flag), \<open>print\<close>, the read requests
  sent with the user token, the create calls on the destination server, and
  \<open>asyncio.sleep\<close>.
\<close>

datatype event =
    Defer bool
  | Followup message bool
  | Print log_line
  | HttpRequest http_request
  | Write write_call
  | Sleep nat

record guild =
  g_name :: string
  me_administrator :: bool

text \<open>
  The outside world is a parameter: the bot's guild cache, the \<open>requests\<close> library,
  \<open>response.json()\<close> for the two bodies the code decodes, and the destination
  server, whose answer to a create call may depend on its state \<open>'d\<close>.
\<close>

record 'd env =
  get_guild :: "int \<Rightarrow> guild option"
  requests_send :: "http_request \<Rightarrow> py_exc + http_response"
  json_roles :: "string \<Rightarrow> py_exc + role_json list"
  json_channels :: "string \<Rightarrow> py_exc + channel_json list"
  dest_call :: "'d \<Rightarrow> write_call \<Rightarrow> api_outcome \<times> 'd"

definition prepend :: "event list \<Rightarrow> event list \<times> 'd \<times> 'r \<Rightarrow> event list \<times> 'd \<times> 'r" where
  "prepend ev res = (case res of (ev', d, r) \<Rightarrow> (ev @ ev', d, r))"

section \<open>bot\_cloner.py: the overwrite mapper\<close>

fun map_overwrites_loop ::
  "role_mapping \<Rightarrow> overwrites \<Rightarrow> overwrite_json list \<Rightarrow> event list \<times> (py_exc + overwrites)" where
  "map_overwrites_loop rm mapped [] = ([], Inr mapped)"
| "map_overwrites_loop rm mapped (ow # ows) =
     (if ow_type ow = 0 then
        (if \<not> py_isdigit (ow_id ow) then
           (case map_overwrites_loop rm mapped ows of
              (ev, r) \<Rightarrow> (Print (LogOverwriteId (ow_id ow)) # ev, r))
         else
           (case py_int (ow_id ow) of
              None \<Rightarrow> ([], Inl (ValueError (ow_id ow)))
            | Some old_role_id \<Rightarrow>
                (case map_of rm old_role_id of
                   None \<Rightarrow> map_overwrites_loop rm mapped ows
                 | Some new_role \<Rightarrow>
                     (case py_int_default (ow_allow ow) of
                        Inl e \<Rightarrow> ([], Inl e)
                      | Inr allow_value \<Rightarrow>
                          (case py_int_default (ow_deny ow) of
                             Inl e \<Rightarrow> ([], Inl e)
                           | Inr deny_value \<Rightarrow>
                               map_overwrites_loop rm
                                 (AList.update new_role (allow_value, deny_value) mapped) ows)))))
      else map_overwrites_loop rm mapped ows)"

definition map_overwrites ::
  "role_mapping \<Rightarrow> overwrite_json list \<Rightarrow> event list \<times> (py_exc + overwrites)" where
  "map_overwrites rm ows = map_overwrites_loop rm [] ows"

text \<open>
  An entry takes part in the output exactly when it is role-scoped, its identifier
  passes \<open>isdigit\<close> and the role mapping has the identifier.
\<close>

definition resolves :: "role_mapping \<Rightarrow> overwrite_json \<Rightarrow> bool" where
  "resolves rm ow =
     (ow_type ow = 0 \<and> py_isdigit (ow_id ow) \<and>
      (case py_int (ow_id ow) of None \<Rightarrow> False | Some k \<Rightarrow> map_of rm k \<noteq> None))"

text \<open>
  The lists on which \<open>int\<close> reads every role-scoped identifier that
  \<open>isdigit\<close> lets through.
\<close>

definition decimal_ids :: "overwrite_json list \<Rightarrow> bool" where
  "decimal_ids ows =
     list_all (\<lambda>ow. \<not> (ow_type ow = 0 \<and> py_isdigit (ow_id ow) \<and> py_int (ow_id ow) = None)) ows"

section \<open>bot\_cloner.py: the REST helper\<close>

definition DISCORD_API_BASE :: string where
  "DISCORD_API_BASE = ''https://discord.com/api/v10''"

definition make_request :: "string \<Rightarrow> string \<Rightarrow> string \<Rightarrow> string option \<Rightarrow> http_request" where
  "make_request method endpoint token j =
     \<lparr>rq_method = method, rq_url = DISCORD_API_BASE @ endpoint, rq_authorization = token,
      rq_content_type = ''application/json'', rq_json = j\<rparr>"

definition api_request ::
  "'d env \<Rightarrow> string \<Rightarrow> string \<Rightarrow> string \<Rightarrow> string option \<Rightarrow>
     event list \<times> (py_exc + http_response)" where
  "api_request env method endpoint token json_data =
     (if method = ''GET'' then
        ([HttpRequest (make_request method endpoint token None)],
         requests_send env (make_request method endpoint token None))
      else if method = ''POST'' \<or> method = ''PATCH'' \<or> method = ''PUT'' then
        ([HttpRequest (make_request method endpoint token json_data)],
         requests_send env (make_request method endpoint token json_data))
      else if method = ''DELETE'' then
        ([HttpRequest (make_request method endpoint token None)],
         requests_send env (make_request method endpoint token None))
      else ([], Inl (ValueError method)))"

section \<open>bot\_cloner.py: the role cloner\<close>

definition get_position :: "int option \<Rightarrow> int" where
  "get_position p = (case p of None \<Rightarrow> 0 | Some n \<Rightarrow> n)"

definition is_managed :: "role_json \<Rightarrow> bool" where
  "is_managed role = (r_managed role = Some True)"

definition is_everyone :: "role_json \<Rightarrow> bool" where
  "is_everyone role = (r_name role = Some ''@everyone'')"

text \<open>
  The filter and the sort of \<open>clone_roles_user\<close>. \<open>list.sort\<close> is stable and so
  is \<open>sort_key\<close>.
\<close>

definition roles_to_copy :: "role_json list \<Rightarrow> role_json list" where
  "roles_to_copy roles_data =
     sort_key (\<lambda>r. get_position (r_position r))
       (filter (\<lambda>role. \<not> is_managed role \<and> \<not> is_everyone role) roles_data)"

definition make_role_kwargs :: "string \<Rightarrow> role_json \<Rightarrow> py_exc + role_kwargs" where
  "make_role_kwargs user role =
     (case r_name role of
        None \<Rightarrow> Inl (KeyError ''name'')
      | Some name \<Rightarrow>
          (case py_int_default (r_permissions role) of
             Inl e \<Rightarrow> Inl e
           | Inr perms \<Rightarrow>
               Inr \<lparr>rk_name = name, rk_permissions = perms,
                    rk_color = (case r_color role of None \<Rightarrow> 0 | Some c \<Rightarrow> c),
                    rk_hoist = (case r_hoist role of None \<Rightarrow> False | Some b \<Rightarrow> b),
                    rk_mentionable = (case r_mentionable role of None \<Rightarrow> False | Some b \<Rightarrow> b),
                    rk_reason_user = user\<rparr>))"

text \<open>
  The \<open>for role in roles_to_copy\<close> loop. \<open>int(role['id'])\<close> and the keyword
  arguments are evaluated outside the \<open>try\<close>, so their exceptions leave the loop;
  \<open>discord.Forbidden\<close> from the create call breaks the loop, any other exception of
  the create call is reported and the loop goes on.
\<close>

fun create_roles ::
  "'d env \<Rightarrow> string \<Rightarrow> 'd \<Rightarrow> role_mapping \<Rightarrow> role_json list \<Rightarrow>
     event list \<times> 'd \<times> (py_exc + role_mapping)" where
  "create_roles env user d rm [] = ([], d, Inr rm)"
| "create_roles env user d rm (role # roles) =
     (case py_int (r_id role) of
        None \<Rightarrow> ([], d, Inl (ValueError (r_id role)))
      | Some old_role_id \<Rightarrow>
          (case make_role_kwargs user role of
             Inl e \<Rightarrow> ([], d, Inl e)
           | Inr kw \<Rightarrow>
               (case dest_call env d (CreateRole kw) of
                  (Created new_role, d') \<Rightarrow>
                    prepend [Write (CreateRole kw), Sleep 1]
                      (create_roles env user d' (AList.update old_role_id new_role rm) roles)
                | (RaiseForbidden, d') \<Rightarrow>
                    ([Write (CreateRole kw), Followup (MsgRoleForbidden (rk_name kw)) True],
                     d', Inr rm)
                | (RaiseOther e, d') \<Rightarrow>
                    prepend [Write (CreateRole kw), Followup (MsgRoleError (rk_name kw) e) True,
                             Print (LogRoleError e)]
                      (create_roles env user d' rm roles))))"

definition clone_roles_user ::
  "'d env \<Rightarrow> 'd \<Rightarrow> string \<Rightarrow> string \<Rightarrow> string \<Rightarrow>
     event list \<times> 'd \<times> (py_exc + role_mapping)" where
  "clone_roles_user env d user user_token origem_id =
     (case api_request env ''GET'' (''/guilds/'' @ origem_id @ ''/roles'') user_token None of
        (ev, Inl e) \<Rightarrow> (ev, d, Inl e)
      | (ev, Inr response) \<Rightarrow>
          if status_code response \<noteq> 200 then
            (ev @ [Followup (MsgRolesFetchFailed (status_code response)) False], d, Inr [])
          else
            (case json_roles env (body response) of
               Inl e \<Rightarrow> (ev, d, Inl e)
             | Inr roles_data \<Rightarrow>
                 (case create_roles env user d [] (roles_to_copy roles_data) of
                    (ev', d', Inl e) \<Rightarrow>
                      (ev @ Followup (MsgCopyingRoles (length (roles_to_copy roles_data))) False
                          # ev', d', Inl e)
                  | (ev', d', Inr role_mapping) \<Rightarrow>
                      (ev @ Followup (MsgCopyingRoles (length (roles_to_copy roles_data))) False
                          # ev' @ [Followup MsgRolesCopied False], d', Inr role_mapping))))"

section \<open>bot\_cloner.py: the channel cloner\<close>

definition get_overwrites :: "channel_json \<Rightarrow> overwrite_json list" where
  "get_overwrites channel =
     (case c_permission_overwrites channel of None \<Rightarrow> [] | Some ows \<Rightarrow> ows)"

text \<open>Pass 1, \<open>for channel in channels_data\<close> with \<open>channel_type == 4\<close>.\<close>

fun create_categories ::
  "'d env \<Rightarrow> string \<Rightarrow> role_mapping \<Rightarrow> 'd \<Rightarrow> category_mapping \<Rightarrow> channel_json list \<Rightarrow>
     event list \<times> 'd \<times> (py_exc + category_mapping)" where
  "create_categories env user rm d cm [] = ([], d, Inr cm)"
| "create_categories env user rm d cm (channel # channels) =
     (if c_type channel = Some 4 then
        (case py_int (c_id channel) of
           None \<Rightarrow> ([], d, Inl (ValueError (c_id channel)))
         | Some old_category_id \<Rightarrow>
             (case map_overwrites rm (get_overwrites channel) of
                (evo, Inl e) \<Rightarrow> (evo, d, Inl e)
              | (evo, Inr overwrites) \<Rightarrow>
                  (case dest_call env d
                          (CreateCategory \<lparr>cat_name = c_name channel, cat_overwrites = overwrites,
                                           cat_reason_user = user\<rparr>) of
                     (Created new_category, d') \<Rightarrow>
                       prepend
                         (evo @ [Write (CreateCategory \<lparr>cat_name = c_name channel,
                                    cat_overwrites = overwrites, cat_reason_user = user\<rparr>),
                                 Sleep 1])
                         (create_categories env user rm d'
                            (AList.update old_category_id new_category cm) channels)
                   | (RaiseForbidden, d') \<Rightarrow>
                       (evo @ [Write (CreateCategory \<lparr>cat_name = c_name channel,
                                  cat_overwrites = overwrites, cat_reason_user = user\<rparr>),
                               Followup (MsgCategoryForbidden (c_name channel)) True],
                        d', Inr cm)
                   | (RaiseOther e, d') \<Rightarrow>
                       prepend
                         (evo @ [Write (CreateCategory \<lparr>cat_name = c_name channel,
                                    cat_overwrites = overwrites, cat_reason_user = user\<rparr>),
                                 Followup (MsgCategoryError (c_name channel) e) True,
                                 Print (LogCategoryError e)])
                         (create_categories env user rm d' cm channels))))
      else create_categories env user rm d cm channels)"

text \<open>
  The parent of a channel: \<open>if parent_id:\<close> skips an absent and an empty
  identifier, \<open>ValueError\<close> of \<open>int(parent_id)\<close> is caught and printed, and an
  identifier the category mapping lacks leaves \<open>new_category\<close> at \<open>None\<close>.
\<close>

definition resolve_parent ::
  "category_mapping \<Rightarrow> channel_json \<Rightarrow> event list \<times> category_handle option" where
  "resolve_parent cm channel =
     (case c_parent_id channel of
        None \<Rightarrow> ([], None)
      | Some parent_id \<Rightarrow>
          if parent_id = [] then ([], None)
          else
            (case py_int parent_id of
               None \<Rightarrow> ([Print (LogParentId parent_id)], None)
             | Some parent_id_int \<Rightarrow> ([], map_of cm parent_id_int)))"

text \<open>The create call of a channel type; \<open>None\<close> for the types the code ignores.\<close>

definition channel_call ::
  "string \<Rightarrow> channel_json \<Rightarrow> overwrites \<Rightarrow> category_handle option \<Rightarrow> write_call option" where
  "channel_call user channel overwrites new_category =
     (let text = CreateTextChannel
            \<lparr>ch_name = c_name channel, ch_overwrites = overwrites, ch_category = new_category,
             ch_reason_user = user, ch_topic = c_topic channel,
             ch_slowmode_delay = c_rate_limit_per_user channel,
             ch_nsfw = (case c_nsfw channel of None \<Rightarrow> False | Some b \<Rightarrow> b)\<rparr>
      in if c_type channel = Some 0 then Some text
         else if c_type channel = Some 2 then
           Some (CreateVoiceChannel
             \<lparr>ch_name = c_name channel, ch_overwrites = overwrites, ch_category = new_category,
              ch_reason_user = user, ch_user_limit = c_user_limit channel,
              ch_bitrate = c_bitrate channel\<rparr>)
         else if c_type channel = Some 5 then Some text
         else if c_type channel = Some 13 then
           Some (CreateStageChannel
             \<lparr>ch_name = c_name channel, ch_overwrites = overwrites, ch_category = new_category,
              ch_reason_user = user\<rparr>)
         else None)"

text \<open>Pass 2, \<open>for channel in channels_data\<close> with \<open>channel_type != 4\<close>.\<close>

fun create_channels ::
  "'d env \<Rightarrow> string \<Rightarrow> role_mapping \<Rightarrow> category_mapping \<Rightarrow> 'd \<Rightarrow> channel_json list \<Rightarrow>
     event list \<times> 'd \<times> (py_exc + unit)" where
  "create_channels env user rm cm d [] = ([], d, Inr ())"
| "create_channels env user rm cm d (channel # channels) =
     (if c_type channel \<noteq> Some 4 then
        (case resolve_parent cm channel of
           (evp, new_category) \<Rightarrow>
             (case map_overwrites rm (get_overwrites channel) of
                (evo, Inl e) \<Rightarrow> (evp @ evo, d, Inl e)
              | (evo, Inr overwrites) \<Rightarrow>
                  (case channel_call user channel overwrites new_category of
                     None \<Rightarrow>
                       prepend (evp @ evo @ [Sleep 1])
                         (create_channels env user rm cm d channels)
                   | Some call \<Rightarrow>
                       (case dest_call env d call of
                          (Created h, d') \<Rightarrow>
                            prepend (evp @ evo @ [Write call, Sleep 1])
                              (create_channels env user rm cm d' channels)
                        | (RaiseForbidden, d') \<Rightarrow>
                            (evp @ evo @
                               [Write call, Followup (MsgChannelForbidden (c_name channel)) True],
                             d', Inr ())
                        | (RaiseOther e, d') \<Rightarrow>
                            prepend
                              (evp @ evo @
                                 [Write call, Followup (MsgChannelError (c_name channel) e) True,
                                  Print (LogChannelError e)])
                              (create_channels env user rm cm d' channels)))))
      else create_channels env user rm cm d channels)"

definition channels_sorted :: "channel_json list \<Rightarrow> channel_json list" where
  "channels_sorted channels_data = sort_key (\<lambda>c. get_position (c_position c)) channels_data"

definition clone_channels_user ::
  "'d env \<Rightarrow> 'd \<Rightarrow> string \<Rightarrow> string \<Rightarrow> string \<Rightarrow> role_mapping \<Rightarrow>
     event list \<times> 'd \<times> (py_exc + unit)" where
  "clone_channels_user env d user user_token origem_id role_mapping =
     (case api_request env ''GET'' (''/guilds/'' @ origem_id @ ''/channels'') user_token None of
        (ev, Inl e) \<Rightarrow> (ev, d, Inl e)
      | (ev, Inr response) \<Rightarrow>
          if status_code response \<noteq> 200 then
            (ev @ [Followup (MsgChannelsFetchFailed (status_code response)) False], d, Inr ())
          else
            (case json_channels env (body response) of
               Inl e \<Rightarrow> (ev, d, Inl e)
             | Inr channels_data \<Rightarrow>
                 prepend (ev @ [Followup (MsgCopyingChannels (length channels_data)) False])
                   (case create_categories env user role_mapping d []
                           (channels_sorted channels_data) of
                      (ev1, d1, Inl e) \<Rightarrow> (ev1, d1, Inl e)
                    | (ev1, d1, Inr category_mapping) \<Rightarrow>
                        (case create_channels env user role_mapping category_mapping d1
                                (channels_sorted channels_data) of
                           (ev2, d2, Inl e) \<Rightarrow> (ev1 @ ev2, d2, Inl e)
                         | (ev2, d2, Inr u) \<Rightarrow>
                             (ev1 @ ev2 @ [Followup MsgChannelsCopied False], d2, Inr ())))))"

section \<open>bot\_cloner.py: the command\<close>

text \<open>
  The body of the \<open>try\<close> of \<open>clone_server_user_slash\<close>; \<open>bot.get_guild\<close> reads the
  bot's own cache and sends nothing.
\<close>

definition clone_body ::
  "'d env \<Rightarrow> 'd \<Rightarrow> string \<Rightarrow> string \<Rightarrow> string \<Rightarrow> string \<Rightarrow>
     event list \<times> 'd \<times> (py_exc + unit)" where
  "clone_body env d user user_token origem_id destino_id =
     (case py_int destino_id of
        None \<Rightarrow> ([], d, Inl (ValueError destino_id))
      | Some gid \<Rightarrow>
          (case get_guild env gid of
             None \<Rightarrow> ([Followup (MsgDestNotFound destino_id) False], d, Inr ())
           | Some guild_destino \<Rightarrow>
               if \<not> me_administrator guild_destino then
                 ([Followup MsgNeedAdmin False], d, Inr ())
               else
                 prepend [Followup (MsgStart origem_id (g_name guild_destino)) False]
                   (case clone_roles_user env d user user_token origem_id of
                      (ev1, d1, Inl e) \<Rightarrow> (ev1, d1, Inl e)
                    | (ev1, d1, Inr role_mapping) \<Rightarrow>
                        (case clone_channels_user env d1 user user_token origem_id
                                role_mapping of
                           (ev2, d2, Inl e) \<Rightarrow> (ev1 @ ev2, d2, Inl e)
                         | (ev2, d2, Inr u) \<Rightarrow>
                             (ev1 @ ev2 @
                                [Followup (MsgCloneDone origem_id (g_name guild_destino)) False],
                              d2, Inr ())))))"

text \<open>
  The two \<open>except\<close> clauses of the command: \<open>ValueError\<close> (and so its subclass
  \<open>JSONDecodeError\<close>) first, then the rest.
\<close>

definition error_report :: "py_exc \<Rightarrow> event list" where
  "error_report e =
     (case e of
        ValueError ve \<Rightarrow> [Followup (MsgInvalidId ve) True]
      | JSONDecodeError ve \<Rightarrow> [Followup (MsgInvalidId ve) True]
      | _ \<Rightarrow> [Print (LogCloneError (exc_text e)), Followup (MsgUnexpected (exc_text e)) False])"

definition clone_server_user_slash ::
  "'d env \<Rightarrow> 'd \<Rightarrow> string \<Rightarrow> string \<Rightarrow> string \<Rightarrow> string \<Rightarrow> event list \<times> 'd" where
  "clone_server_user_slash env d user user_token origem_id destino_id =
     (case clone_body env d user user_token origem_id destino_id of
        (ev, d', Inr u) \<Rightarrow> (Defer False # ev, d')
      | (ev, d', Inl e) \<Rightarrow> (Defer False # ev @ error_report e, d'))"

section \<open>Reading a trace\<close>

fun write_calls :: "event list \<Rightarrow> write_call list" where
  "write_calls [] = []"
| "write_calls (Write c # ev) = c # write_calls ev"
| "write_calls (_ # ev) = write_calls ev"

fun http_requests :: "event list \<Rightarrow> http_request list" where
  "http_requests [] = []"
| "http_requests (HttpRequest r # ev) = r # http_requests ev"
| "http_requests (_ # ev) = http_requests ev"

fun followups :: "event list \<Rightarrow> message list" where
  "followups [] = []"
| "followups (Followup m b # ev) = m # followups ev"
| "followups (_ # ev) = followups ev"

fun is_category_call :: "write_call \<Rightarrow> bool" where
  "is_category_call (CreateCategory kw) = True"
| "is_category_call _ = False"

fun is_channel_call :: "write_call \<Rightarrow> bool" where
  "is_channel_call (CreateTextChannel kw) = True"
| "is_channel_call (CreateVoiceChannel kw) = True"
| "is_channel_call (CreateStageChannel kw) = True"
| "is_channel_call _ = False"

fun is_role_call :: "write_call \<Rightarrow> bool" where
  "is_role_call (CreateRole kw) = True"
| "is_role_call _ = False"

fun call_name :: "write_call \<Rightarrow> string" where
  "call_name (CreateRole kw) = rk_name kw"
| "call_name (CreateCategory kw) = cat_name kw"
| "call_name (CreateTextChannel kw) = ch_name kw"
| "call_name (CreateVoiceChannel kw) = ch_name kw"
| "call_name (CreateStageChannel kw) = ch_name kw"

fun call_category :: "write_call \<Rightarrow> category_handle option" where
  "call_category (CreateTextChannel kw) = ch_category kw"
| "call_category (CreateVoiceChannel kw) = ch_category kw"
| "call_category (CreateStageChannel kw) = ch_category kw"
| "call_category _ = None"

fun is_roles_fetch_report :: "message \<Rightarrow> bool" where
  "is_roles_fetch_report (MsgRolesFetchFailed st) = True"
| "is_roles_fetch_report _ = False"

text \<open>The channel types pass 2 has a create call for: text, voice, announcement, stage.\<close>

definition creatable :: "channel_json \<Rightarrow> bool" where
  "creatable channel =
     (c_type channel = Some 0 \<or> c_type channel = Some 2 \<or> c_type channel = Some 5 \<or>
      c_type channel = Some 13)"

section \<open>A concrete world\<close>

text \<open>
  A source server with four roles and four channels, and a destination server that
  accepts every create call and numbers the new objects; \<open>st\<close> is the status the
  source answers the role request with.
\<close>

definition demo_role :: "string \<Rightarrow> string \<Rightarrow> int \<Rightarrow> bool \<Rightarrow> role_json" where
  "demo_role i n p m =
     \<lparr>r_id = i, r_name = Some n, r_managed = Some m, r_position = Some p,
      r_permissions = Some ''8'', r_color = None, r_hoist = None, r_mentionable = None\<rparr>"

definition demo_roles :: "role_json list" where
  "demo_roles =
     [demo_role ''1'' ''Mod'' 2 False, demo_role ''2'' ''Bot'' 3 True,
      demo_role ''0'' ''@everyone'' 0 False, demo_role ''3'' ''Low'' 1 False]"

definition demo_channel :: "string \<Rightarrow> int \<Rightarrow> string \<Rightarrow> string option \<Rightarrow> int \<Rightarrow> channel_json" where
  "demo_channel i t n par p =
     \<lparr>c_id = i, c_type = Some t, c_name = n, c_parent_id = par, c_position = Some p,
      c_topic = None, c_rate_limit_per_user = None, c_nsfw = None, c_user_limit = None,
      c_bitrate = None, c_permission_overwrites = None\<rparr>"

definition demo_channels :: "channel_json list" where
  "demo_channels =
     [demo_channel ''12'' 2 ''voice'' (Some ''abc'') 2, demo_channel ''11'' 0 ''chat'' (Some ''10'') 1,
      demo_channel ''10'' 4 ''General'' None 0, demo_channel ''13'' 15 ''forum'' (Some ''abc'') 3]"

definition demo_env :: "int \<Rightarrow> nat env" where
  "demo_env st =
     \<lparr>get_guild = (\<lambda>g. if g = 2 then Some \<lparr>g_name = ''Dest'', me_administrator = True\<rparr>
                        else if g = 3 then Some \<lparr>g_name = ''Other'', me_administrator = False\<rparr>
                        else None),
      requests_send = (\<lambda>rq. if rq_url rq = DISCORD_API_BASE @ ''/guilds/1/roles''
                               then Inr \<lparr>status_code = st, body = ''roles''\<rparr>
                             else Inr \<lparr>status_code = 200, body = ''channels''\<rparr>),
      json_roles = (\<lambda>b. Inr demo_roles),
      json_channels = (\<lambda>b. Inr demo_channels),
      dest_call = (\<lambda>d c. (Created d, Suc d))\<rparr>"

text \<open>
  The same world with a source server whose only channel is a category carrying a
  role overwrite with the identifier U+00B2.
\<close>

definition superscript_two :: string where
  "superscript_two = [CHR 0xB2]"

definition demo_bad_category :: channel_json where
  "demo_bad_category =
     (demo_channel ''10'' 4 ''General'' None 0)
       \<lparr>c_permission_overwrites :=
          Some [\<lparr>ow_type = 0, ow_id = superscript_two, ow_allow = None, ow_deny = None\<rparr>]\<rparr>"

definition demo_env_bad :: "nat env" where
  "demo_env_bad = (demo_env 200)\<lparr>json_channels := (\<lambda>b. Inr [demo_bad_category])\<rparr>"

text \<open>The same world with the network down: every request raises.\<close>

definition demo_env_down :: "nat env" where
  "demo_env_down =
     (demo_env 200)\<lparr>requests_send := (\<lambda>rq. Inl (OtherError ''ConnectionError''))\<rparr>"

section \<open>bot\_limpeza.py: the module top level\<close>

text \<open>
  A top-level statement, by what its execution does with names: the names it
  evaluates, in order (for a \<open>def\<close> these are its decorators, then its annotations),
  the names it binds, and what it does to the outside when it completes.
\<close>

datatype module_effect = BotRun | RegisterCommand string | PrintNoToken

record stmt =
  st_line :: nat
  st_reads :: "string list"
  st_binds :: "string list"
  st_effects :: "module_effect list"

definition python_builtins :: "string list" where
  "python_builtins = [''str'', ''int'', ''print'', ''len'', ''enumerate'', ''Exception'', ''__file__'']"

fun first_undefined :: "string list \<Rightarrow> string list \<Rightarrow> string option" where
  "first_undefined defined [] = None"
| "first_undefined defined (n # ns) =
     (if n \<in> set defined then first_undefined defined ns else Some n)"

text \<open>
  Running the statements in order: evaluating a name that is neither bound so far nor
  a builtin raises \<open>NameError\<close> and ends the module there.
\<close>

fun exec_module ::
  "string list \<Rightarrow> stmt list \<Rightarrow> module_effect list \<times> (nat \<times> py_exc + string list)" where
  "exec_module defined [] = ([], Inr defined)"
| "exec_module defined (s # ss) =
     (case first_undefined defined (st_reads s) of
        Some n \<Rightarrow> ([], Inl (st_line s, NameError n))
      | None \<Rightarrow>
          (case exec_module (st_binds s @ defined) ss of
             (eff, r) \<Rightarrow> (st_effects s @ eff, r)))"

text \<open>
  The statements of bot\_limpeza.py with their line numbers; \<open>token\<close> is what
  \<open>os.getenv\<close> returns, which decides the branch of the closing \<open>if\<close>.
\<close>

definition bot_limpeza_module :: "string option \<Rightarrow> stmt list" where
  "bot_limpeza_module token =
     [\<lparr>st_line = 1, st_reads = [], st_binds = [''discord''], st_effects = []\<rparr>,
      \<lparr>st_line = 2, st_reads = [], st_binds = [''commands''], st_effects = []\<rparr>,
      \<lparr>st_line = 3, st_reads = [], st_binds = [''app_commands''], st_effects = []\<rparr>,
      \<lparr>st_line = 4, st_reads = [], st_binds = [''os''], st_effects = []\<rparr>,
      \<lparr>st_line = 5, st_reads = [], st_binds = [''json''], st_effects = []\<rparr>,
      \<lparr>st_line = 6, st_reads = [], st_binds = [''Dict'', ''List'', ''Any''], st_effects = []\<rparr>,
      \<lparr>st_line = 7, st_reads = [], st_binds = [''Path''], st_effects = []\<rparr>,
      \<lparr>st_line = 12, st_reads = [''discord''], st_binds = [''intents''], st_effects = []\<rparr>,
      \<lparr>st_line = 13, st_reads = [''intents''], st_binds = [], st_effects = []\<rparr>,
      \<lparr>st_line = 14, st_reads = [''intents''], st_binds = [], st_effects = []\<rparr>,
      \<lparr>st_line = 15, st_reads = [''intents''], st_binds = [], st_effects = []\<rparr>,
      \<lparr>st_line = 16, st_reads = [''intents''], st_binds = [], st_effects = []\<rparr>,
      \<lparr>st_line = 19, st_reads = [''os''], st_binds = [''TOKEN''], st_effects = []\<rparr>,
      \<lparr>st_line = 20, st_reads = [''bot'', ''TOKEN''], st_binds = [], st_effects = [BotRun]\<rparr>,
      \<lparr>st_line = 23, st_reads = [''str'', ''Path'', ''__file__''], st_binds = [''PRESET_FILE''],
        st_effects = []\<rparr>,
      \<lparr>st_line = 25, st_reads = [''Dict'', ''str'', ''List'', ''Dict'', ''str'', ''Any''],
        st_binds = [''load_presets''], st_effects = []\<rparr>,
      \<lparr>st_line = 43, st_reads = [''Dict'', ''str'', ''List'', ''Dict'', ''str'', ''Any''],
        st_binds = [''save_presets''], st_effects = []\<rparr>,
      \<lparr>st_line = 48, st_reads = [''commands'', ''discord'', ''discord'', ''app_commands''],
        st_binds = [''ModerationBot''], st_effects = []\<rparr>,
      \<lparr>st_line = 94, st_reads = [''ModerationBot'', ''intents''], st_binds = [''bot''],
        st_effects = []\<rparr>,
      \<lparr>st_line = 98, st_reads = [''bot'', ''app_commands'', ''app_commands'', ''discord'', ''str''],
        st_binds = [''criar_cargos_slash''], st_effects = [RegisterCommand ''criar_cargos'']\<rparr>,
      \<lparr>st_line = 199, st_reads = [''app_commands''], st_binds = [''preset_group''],
        st_effects = []\<rparr>,
      \<lparr>st_line = 200, st_reads = [''bot'', ''preset_group''], st_binds = [],
        st_effects = [RegisterCommand ''preset_cargos'']\<rparr>,
      \<lparr>st_line = 202, st_reads = [''preset_group'', ''app_commands'', ''discord''],
        st_binds = [''preset_listar_slash''],
        st_effects = [RegisterCommand ''preset_cargos listar'']\<rparr>,
      \<lparr>st_line = 221,
        st_reads = [''preset_group'', ''app_commands'', ''app_commands'', ''discord'', ''str'', ''str''],
        st_binds = [''preset_salvar_slash''],
        st_effects = [RegisterCommand ''preset_cargos salvar'']\<rparr>,
      \<lparr>st_line = 243,
        st_reads = [''preset_group'', ''app_commands'', ''app_commands'', ''discord'', ''str''],
        st_binds = [''preset_usar_slash''],
        st_effects = [RegisterCommand ''preset_cargos usar'']\<rparr>,
      \<lparr>st_line = 347, st_reads = [''bot'', ''app_commands'', ''discord''],
        st_binds = [''sync_slash''], st_effects = [RegisterCommand ''sync'']\<rparr>,
      \<lparr>st_line = 355,
        st_reads = [''bot'', ''app_commands'', ''app_commands'', ''discord'', ''app_commands'', ''int''],
        st_binds = [''limpar_slash''], st_effects = [RegisterCommand ''limpar'']\<rparr>,
      \<lparr>st_line = 386, st_reads = [''bot'', ''app_commands'', ''discord''],
        st_binds = [''apagar_canais_slash''], st_effects = [RegisterCommand ''apagar_canais'']\<rparr>,
      \<lparr>st_line = 413, st_reads = [''bot'', ''app_commands'', ''discord''],
        st_binds = [''apagar_cargos_slash''], st_effects = [RegisterCommand ''apagar_cargos'']\<rparr>,
      (if token = None then
         \<lparr>st_line = 442, st_reads = [''TOKEN'', ''print''], st_binds = [],
           st_effects = [PrintNoToken]\<rparr>
       else
         \<lparr>st_line = 442, st_reads = [''TOKEN'', ''bot'', ''TOKEN''], st_binds = [],
           st_effects = [BotRun]\<rparr>)]"

text \<open>The names a command of the loaded module finds as globals.\<close>

definition limpeza_globals :: "string list" where
  "limpeza_globals = python_builtins @ concat (map st_binds (bot_limpeza_module None))"

section \<open>bot\_limpeza.py: the preset store\<close>

datatype json =
    JNull
  | JBool bool
  | JNum int
  | JStr string
  | JList "json list"
  | JObject "(string \<times> json) list"

text \<open>
  The file at \<open>PRESET_FILE\<close>: absent, present but failing to open or to read, or
  holding a text. \<open>json.loads\<close> is the library's and a parameter here.
\<close>

datatype preset_file = Missing | Unreadable py_exc | Content string

datatype load_log = LogMalformed | LogLoadError string

text \<open>The body of the \<open>try\<close> of \<open>load_presets\<close>.\<close>

definition read_presets :: "(string \<Rightarrow> py_exc + json) \<Rightarrow> preset_file \<Rightarrow> py_exc + json" where
  "read_presets json_loads file =
     (case file of
        Missing \<Rightarrow> Inl (OtherError ''FileNotFoundError'')
      | Unreadable e \<Rightarrow> Inl e
      | Content content \<Rightarrow> if content = [] then Inr (JObject []) else json_loads content)"

definition load_presets ::
  "(string \<Rightarrow> py_exc + json) \<Rightarrow> preset_file \<Rightarrow> load_log list \<times> (py_exc + json)" where
  "load_presets json_loads file =
     (if file = Missing then ([], Inr (JObject []))
      else
        (case read_presets json_loads file of
           Inr presets \<Rightarrow> ([], Inr presets)
         | Inl (JSONDecodeError m) \<Rightarrow> ([LogMalformed], Inr (JObject []))
         | Inl e \<Rightarrow> ([LogLoadError (exc_text e)], Inr (JObject []))))"

section \<open>bot\_limpeza.py: /criar\_cargos\<close>

text \<open>\<open>str.split(sep)\<close> for a one-character separator, and \<open>list.insert\<close>.\<close>

fun py_split :: "char \<Rightarrow> string \<Rightarrow> string list" where
  "py_split sep [] = [[]]"
| "py_split sep (c # cs) =
     (if c = sep then [] # py_split sep cs
      else (case py_split sep cs of [] \<Rightarrow> [[c]] | w # ws \<Rightarrow> (c # w) # ws))"

definition py_insert :: "int \<Rightarrow> 'a \<Rightarrow> 'a list \<Rightarrow> 'a list" where
  "py_insert i x xs =
     (let n = int (length xs);
          j = (if i < 0 then max 0 (n + i) else min i n)
      in take (nat j) xs @ x # drop (nat j) xs)"

text \<open>
  \<open>lista_cargos.replace(',', '\n').split('\n')\<close>, each piece stripped, the empty
  ones dropped.
\<close>

definition parse_role_names :: "string \<Rightarrow> string list" where
  "parse_role_names lista_cargos =
     filter (\<lambda>name. name \<noteq> [])
       (map py_strip
          (py_split (CHR 0x0A) (map (\<lambda>c. if c = CHR '','' then CHR 0x0A else c) lista_cargos)))"

record role_obj =
  role_id :: nat
  role_name :: string

datatype role_result = RoleCreated role_obj | RoleForbidden | RoleError string

datatype edit_result = EditOk | EditForbidden | EditError string

datatype failure =
    FailForbidden string
  | FailError string string
  | ReorderForbidden
  | ReorderError py_exc

datatype limpeza_message =
    MsgGuildOnly
  | MsgNoValidRole
  | MsgCreated "string list" "failure list" bool
  | MsgCreateFailed "failure list"

datatype limpeza_event =
    LDefer bool
  | LFollowup limpeza_message bool
  | LCreateRole string string
  | LEditRolePositions "(nat \<times> nat) list" string

text \<open>
  The guild of the interaction, with state \<open>'g\<close>: its create-role call, its role
  list (lowest first), the bot's top role and its reorder call.
\<close>

record 'g limpeza_env =
  create_role :: "'g \<Rightarrow> string \<Rightarrow> string \<Rightarrow> role_result \<times> 'g"
  guild_roles :: "'g \<Rightarrow> role_obj list"
  top_role :: "'g \<Rightarrow> role_obj"
  edit_role_positions :: "'g \<Rightarrow> (nat \<times> nat) list \<Rightarrow> string \<Rightarrow> edit_result \<times> 'g"

text \<open>Step 2, \<open>for name in role_names\<close>.\<close>

fun create_named_roles ::
  "'g limpeza_env \<Rightarrow> 'g \<Rightarrow> string \<Rightarrow> role_obj list \<Rightarrow> failure list \<Rightarrow> string list \<Rightarrow>
     limpeza_event list \<times> 'g \<times> role_obj list \<times> failure list" where
  "create_named_roles env g user created_roles failed_roles [] =
     ([], g, created_roles, failed_roles)"
| "create_named_roles env g user created_roles failed_roles (name # names) =
     (case create_role env g name user of
        (RoleCreated new_role, g') \<Rightarrow>
          (case create_named_roles env g' user (created_roles @ [new_role]) failed_roles names of
             (ev, r) \<Rightarrow> (LCreateRole name user # ev, r))
      | (RoleForbidden, g') \<Rightarrow>
          ([LCreateRole name user], g', created_roles, failed_roles @ [FailForbidden name])
      | (RoleError e, g') \<Rightarrow>
          (case create_named_roles env g' user created_roles (failed_roles @ [FailError name e])
                  names of
             (ev, r) \<Rightarrow> (LCreateRole name user # ev, r)))"

text \<open>
  The names \<open>criar_cargos_slash\<close> assigns, which are its locals; any other name is
  looked up among the module's globals and the builtins, and is a \<open>NameError\<close> when
  it is in neither.
\<close>

definition criar_cargos_locals :: "string list" where
  "criar_cargos_locals =
     [''interaction'', ''lista_cargos'', ''guild'', ''role_names'', ''created_roles'',
      ''failed_roles'', ''name'', ''new_role'', ''e'', ''reorder_success'', ''roles_to_reorder'',
      ''bot_role_index'', ''insert_position'', ''role'', ''new_role_positions'',
      ''success_message'']"

definition load_name :: "string list \<Rightarrow> string list \<Rightarrow> string \<Rightarrow> py_exc + unit" where
  "load_name locals globals n =
     (if n \<in> set locals \<or> n \<in> set globals then Inr () else Inl (NameError n))"

fun index_of :: "role_obj \<Rightarrow> role_obj list \<Rightarrow> nat option" where
  "index_of x [] = None"
| "index_of x (r # rs) =
     (if role_id r = role_id x then Some 0 else map_option Suc (index_of x rs))"

fun insert_descending :: "int \<Rightarrow> role_obj list \<Rightarrow> role_obj list \<Rightarrow> role_obj list" where
  "insert_descending insert_position [] roles_to_reorder = roles_to_reorder"
| "insert_descending insert_position (role # created) roles_to_reorder =
     insert_descending (insert_position - 1) created
       (py_insert insert_position role roles_to_reorder)"

text \<open>
  The body of the \<open>try\<close> of step 3. It also returns \<open>created_roles\<close>, which
  \<open>created_roles.reverse()\<close> changes in place once \<open>index\<close> has returned. The
  arguments of \<open>edit_role_positions\<close> are evaluated before the call: the positions,
  then the reason, whose f-string reads \<open>nome\<close> and \<open>interaction\<close>.
\<close>

definition reorder_body ::
  "'g limpeza_env \<Rightarrow> 'g \<Rightarrow> string \<Rightarrow> role_obj list \<Rightarrow>
     limpeza_event list \<times> 'g \<times> role_obj list \<times> (py_exc + unit)" where
  "reorder_body env g user created_roles =
     (case index_of (top_role env g) (guild_roles env g) of
        None \<Rightarrow> ([], g, created_roles, Inl (ValueError ''not in list''))
      | Some bot_role_index \<Rightarrow>
          (let roles_to_reorder =
                 filter (\<lambda>r. role_id r \<notin> set (map role_id created_roles)) (guild_roles env g);
               reversed = rev created_roles;
               reordered = insert_descending (int bot_role_index) reversed roles_to_reorder;
               new_role_positions = map (\<lambda>(index, role). (role_id role, index))
                                      (enumerate 0 reordered)
           in (case load_name criar_cargos_locals limpeza_globals ''nome'' of
                 Inl e \<Rightarrow> ([], g, reversed, Inl e)
               | Inr u \<Rightarrow>
                   (case edit_role_positions env g new_role_positions user of
                      (EditOk, g') \<Rightarrow>
                        ([LEditRolePositions new_role_positions user], g', reversed, Inr ())
                    | (EditForbidden, g') \<Rightarrow>
                        ([LEditRolePositions new_role_positions user], g', reversed,
                         Inl Forbidden)
                    | (EditError m, g') \<Rightarrow>
                        ([LEditRolePositions new_role_positions user], g', reversed,
                         Inl (OtherError m))))))"

definition criar_cargos_slash ::
  "'g limpeza_env \<Rightarrow> 'g option \<Rightarrow> string \<Rightarrow> string \<Rightarrow> limpeza_event list \<times> 'g option" where
  "criar_cargos_slash env guild user lista_cargos =
     (case guild of
        None \<Rightarrow> ([LDefer True, LFollowup MsgGuildOnly True], None)
      | Some g \<Rightarrow>
          if parse_role_names lista_cargos = [] then
            ([LDefer True, LFollowup MsgNoValidRole True], Some g)
          else
            (case create_named_roles env g user [] [] (parse_role_names lista_cargos) of
               (ev1, g1, created_roles, failed_roles) \<Rightarrow>
                 if created_roles = [] then
                   (LDefer True # ev1 @ [LFollowup (MsgCreateFailed failed_roles) True], Some g1)
                 else
                   (case reorder_body env g1 user created_roles of
                      (ev2, g2, created_roles', Inr u) \<Rightarrow>
                        (LDefer True # ev1 @ ev2 @
                           [LFollowup (MsgCreated (map role_name created_roles') failed_roles
                                         False) False],
                         Some g2)
                    | (ev2, g2, created_roles', Inl Forbidden) \<Rightarrow>
                        (LDefer True # ev1 @ ev2 @
                           [LFollowup (MsgCreated (map role_name created_roles')
                                         (failed_roles @ [ReorderForbidden]) True) False],
                         Some g2)
                    | (ev2, g2, created_roles', Inl e) \<Rightarrow>
                        (LDefer True # ev1 @ ev2 @
                           [LFollowup (MsgCreated (map role_name created_roles')
                                         (failed_roles @ [ReorderError e]) True) False],
                         Some g2))))"

fun is_edit_positions :: "limpeza_event \<Rightarrow> bool" where
  "is_edit_positions (LEditRolePositions ps reason) = True"
| "is_edit_positions _ = False"

text \<open>A guild that creates every role asked for, numbering them from its state.\<close>

definition demo_guild :: "nat limpeza_env" where
  "demo_guild =
     \<lparr>create_role = (\<lambda>g name user. (RoleCreated \<lparr>role_id = 10 + g, role_name = name\<rparr>, Suc g)),
      guild_roles = (\<lambda>g. \<lparr>role_id = 0, role_name = ''@everyone''\<rparr> #
                          map (\<lambda>i. \<lparr>role_id = 10 + i, role_name = ''new''\<rparr>) [0..<g] @
                          [\<lparr>role_id = 1, role_name = ''bot''\<rparr>]),
      top_role = (\<lambda>g. \<lparr>role_id = 1, role_name = ''bot''\<rparr>),
      edit_role_positions = (\<lambda>g ps reason. (EditOk, g))\<rparr>"

section \<open>Verification: text functions\<close>

lemma int_strip_decimal:
  assumes "s \<noteq> []" and "list_all is_digit s"
  shows "int_strip s = s"
proof -
  have nd: "\<And>c. is_digit c \<Longrightarrow> \<not> int_isspace c"
    by (auto simp: is_digit_def int_isspace_def)
  from assms have all: "\<forall>c\<in>set s. is_digit c"
    by (simp add: list_all_iff)
  have h: "\<not> int_isspace (hd s)" using assms(1) all nd by (cases s) auto
  have l: "\<not> int_isspace (hd (rev s))" using assms(1) all nd
    by (metis hd_rev last_in_set)
  have 1: "dropWhile int_isspace s = s" using assms(1) h by (cases s) auto
  have 2: "dropWhile int_isspace (rev s) = rev s" using assms(1) l by (cases "rev s") auto
  show ?thesis by (simp add: int_strip_def 1 2)
qed

lemma int_body_digits:
  "list_all is_digit s \<Longrightarrow> s \<noteq> [] \<or> prev \<Longrightarrow> int_body prev s"
  by (induction s arbitrary: prev) simp_all

lemma decimal_int:
  assumes "s \<noteq> []" and "list_all is_digit s"
  shows "py_int s = Some (int (digits_value s))"
proof -
  from assms obtain c cs where s: "s = c # cs" by (cases s) auto
  have d: "is_digit c" using assms(2) s by simp
  have c: "c \<noteq> CHR ''-''" "c \<noteq> CHR ''+''" using d by (simp_all add: is_digit_def) blast+
  have v: "valid_int_body s" using assms by (simp add: valid_int_body_def int_body_digits)
  show ?thesis
    using int_strip_decimal[OF assms] v c s by (simp add: py_int_def)
qed

section \<open>Verification: the overwrite mapper\<close>

lemma step_raise:
  assumes "ow_type ow = 0" and "py_isdigit (ow_id ow)" and "py_int (ow_id ow) = None"
  shows "map_overwrites_loop rm mapped (ow # ows) = ([], Inl (ValueError (ow_id ow)))"
  using assms by simp

lemma step_skip:
  assumes "\<not> resolves rm ow"
    and "\<not> (ow_type ow = 0 \<and> py_isdigit (ow_id ow) \<and> py_int (ow_id ow) = None)"
  shows "snd (map_overwrites_loop rm mapped (ow # ows)) = snd (map_overwrites_loop rm mapped ows)"
proof (cases "ow_type ow = 0")
  case False
  then show ?thesis by simp
next
  case t: True
  show ?thesis
  proof (cases "py_isdigit (ow_id ow)")
    case False
    then show ?thesis using t by (simp split: prod.splits)
  next
    case True
    with assms(2) t obtain k where k: "py_int (ow_id ow) = Some k" by auto
    with assms(1) t True have "map_of rm k = None" by (simp add: resolves_def)
    then show ?thesis using t True k by simp
  qed
qed

lemma step_take:
  assumes "resolves rm ow"
  shows "\<exists>k h. py_int (ow_id ow) = Some k \<and> map_of rm k = Some h \<and>
     map_overwrites_loop rm mapped (ow # ows) =
       (case py_int_default (ow_allow ow) of
          Inl e \<Rightarrow> ([], Inl e)
        | Inr a \<Rightarrow>
            (case py_int_default (ow_deny ow) of
               Inl e \<Rightarrow> ([], Inl e)
             | Inr d \<Rightarrow> map_overwrites_loop rm (AList.update h (a, d) mapped) ows))"
proof -
  from assms obtain k h where k: "py_int (ow_id ow) = Some k" "map_of rm k = Some h"
    and t: "ow_type ow = 0" "py_isdigit (ow_id ow)"
    by (auto simp: resolves_def split: option.splits)
  then show ?thesis by simp
qed

lemma loop_filter:
  "decimal_ids ows \<Longrightarrow>
   snd (map_overwrites_loop rm mapped ows) =
   snd (map_overwrites_loop rm mapped (filter (resolves rm) ows))"
proof (induction ows arbitrary: mapped)
  case Nil
  then show ?case by simp
next
  case (Cons ow ows)
  from Cons.prems have dec: "decimal_ids ows"
    and here: "\<not> (ow_type ow = 0 \<and> py_isdigit (ow_id ow) \<and> py_int (ow_id ow) = None)"
    by (simp_all add: decimal_ids_def)
  note ih = Cons.IH[OF dec]
  show ?case
  proof (cases "resolves rm ow")
    case False
    then show ?thesis using ih[of mapped] step_skip[OF False here, of mapped ows] by simp
  next
    case True
    let ?fs = "filter (resolves rm) ows"
    from step_take[OF True, of mapped ows] obtain k h where
      k: "py_int (ow_id ow) = Some k" "map_of rm k = Some h" and
      e1: "map_overwrites_loop rm mapped (ow # ows) =
       (case py_int_default (ow_allow ow) of
          Inl e \<Rightarrow> ([], Inl e)
        | Inr a \<Rightarrow>
            (case py_int_default (ow_deny ow) of
               Inl e \<Rightarrow> ([], Inl e)
             | Inr d \<Rightarrow> map_overwrites_loop rm (AList.update h (a, d) mapped) ows))"
      by blast
    from step_take[OF True, of mapped ?fs] k have
      e2: "map_overwrites_loop rm mapped (ow # ?fs) =
       (case py_int_default (ow_allow ow) of
          Inl e \<Rightarrow> ([], Inl e)
        | Inr a \<Rightarrow>
            (case py_int_default (ow_deny ow) of
               Inl e \<Rightarrow> ([], Inl e)
             | Inr d \<Rightarrow> map_overwrites_loop rm (AList.update h (a, d) mapped) ?fs))"
      by simp
    have f: "filter (resolves rm) (ow # ows) = ow # ?fs" using True by simp
    show ?thesis
    proof (cases "py_int_default (ow_allow ow)")
      case (Inl e)
      then show ?thesis unfolding f e1 e2 by simp
    next
      case a: (Inr a)
      show ?thesis
      proof (cases "py_int_default (ow_deny ow)")
        case (Inl e)
        then show ?thesis unfolding f e1 e2 using a by simp
      next
        case (Inr d)
        then show ?thesis unfolding f e1 e2 using a ih[of "AList.update h (a, d) mapped"] by simp
      qed
    qed
  qed
qed

lemma loop_none:
  "decimal_ids ows \<Longrightarrow> \<forall>ow\<in>set ows. \<not> resolves rm ow \<Longrightarrow>
   snd (map_overwrites_loop rm mapped ows) = Inr mapped"
proof (induction ows)
  case Nil
  then show ?case by simp
next
  case (Cons ow ows)
  from Cons.prems(1) have dec: "decimal_ids ows"
    and here: "\<not> (ow_type ow = 0 \<and> py_isdigit (ow_id ow) \<and> py_int (ow_id ow) = None)"
    by (simp_all add: decimal_ids_def)
  from Cons.prems(2) have n: "\<not> resolves rm ow" and rest: "\<forall>ow\<in>set ows. \<not> resolves rm ow"
    by simp_all
  from step_skip[OF n here, of mapped ows] Cons.IH[OF dec rest] show ?case by simp
qed

lemma loop_keys:
  "snd (map_overwrites_loop rm mapped ows) = Inr out \<Longrightarrow>
   fst ` set out \<subseteq> fst ` set mapped \<union>
     {h. \<exists>ow\<in>set ows. resolves rm ow \<and> (\<exists>k. py_int (ow_id ow) = Some k \<and> map_of rm k = Some h)}"
proof (induction ows arbitrary: mapped)
  case Nil
  then show ?case by auto
next
  case (Cons ow ows)
  show ?case
  proof (cases "resolves rm ow")
    case False
    have "snd (map_overwrites_loop rm mapped ows) = Inr out"
    proof (cases "ow_type ow = 0 \<and> py_isdigit (ow_id ow) \<and> py_int (ow_id ow) = None")
      case True
      then have "map_overwrites_loop rm mapped (ow # ows) = ([], Inl (ValueError (ow_id ow)))"
        using step_raise[of ow rm mapped ows] by blast
      with Cons.prems show ?thesis by simp
    next
      case here: False
      from step_skip[OF False here, of mapped ows] Cons.prems show ?thesis by simp
    qed
    from Cons.IH[OF this] show ?thesis by auto
  next
    case True
    from step_take[OF True, of mapped ows] obtain k h where
      k: "py_int (ow_id ow) = Some k" "map_of rm k = Some h" and
      e: "map_overwrites_loop rm mapped (ow # ows) =
       (case py_int_default (ow_allow ow) of
          Inl e \<Rightarrow> ([], Inl e)
        | Inr a \<Rightarrow>
            (case py_int_default (ow_deny ow) of
               Inl e \<Rightarrow> ([], Inl e)
             | Inr d \<Rightarrow> map_overwrites_loop rm (AList.update h (a, d) mapped) ows))"
      by blast
    from Cons.prems e obtain a d where
      r: "snd (map_overwrites_loop rm (AList.update h (a, d) mapped) ows) = Inr out"
      by (auto split: sum.splits)
    have "fst ` set (AList.update h (a, d) mapped) = {h} \<union> fst ` set mapped"
      by (rule dom_update)
    with Cons.IH[OF r] have
      "fst ` set out \<subseteq> insert h (fst ` set mapped) \<union>
        {h. \<exists>ow\<in>set ows. resolves rm ow \<and> (\<exists>k. py_int (ow_id ow) = Some k \<and> map_of rm k = Some h)}"
      by auto
    moreover have "h \<in> {h. \<exists>ow\<in>set (ow # ows). resolves rm ow \<and> (\<exists>k. py_int (ow_id ow) = Some k \<and> map_of rm k = Some h)}"
      using True k by auto
    ultimately show ?thesis by auto
  qed
qed

text \<open>
  On a list whose role-scoped identifiers \<open>int\<close> reads whenever \<open>isdigit\<close> lets
  them through, the mapper behaves as designed: the result is the result on the
  entries that are role-scoped and whose identifier the role mapping has, the other
  entries add nothing and raise nothing, and every key of the result is the new handle
  of a role-scoped entry's identifier (this last part on every list).
\<close>

lemma map_overwrites_decimal_ids:
  "(decimal_ids ows \<longrightarrow>
      snd (map_overwrites rm ows) = snd (map_overwrites rm (filter (resolves rm) ows))) \<and>
   (decimal_ids ows \<and>
    (\<forall>ow\<in>set ows. ow_type ow \<noteq> 0 \<or> (\<forall>k. py_int (ow_id ow) = Some k \<longrightarrow> map_of rm k = None))
      \<longrightarrow> snd (map_overwrites rm ows) = Inr []) \<and>
   (\<forall>out. snd (map_overwrites rm ows) = Inr out \<longrightarrow>
      fst ` set out \<subseteq>
        {h. \<exists>ow\<in>set ows. ow_type ow = 0 \<and>
              (\<exists>k. py_int (ow_id ow) = Some k \<and> map_of rm k = Some h)})"
proof (intro conjI allI impI)
  assume "decimal_ids ows"
  then show "snd (map_overwrites rm ows) = snd (map_overwrites rm (filter (resolves rm) ows))"
    unfolding map_overwrites_def by (rule loop_filter)
next
  assume a: "decimal_ids ows \<and>
    (\<forall>ow\<in>set ows. ow_type ow \<noteq> 0 \<or> (\<forall>k. py_int (ow_id ow) = Some k \<longrightarrow> map_of rm k = None))"
  have "\<forall>ow\<in>set ows. \<not> resolves rm ow"
  proof
    fix ow assume "ow \<in> set ows"
    with a show "\<not> resolves rm ow"
      by (auto simp: resolves_def split: option.splits)
  qed
  with a show "snd (map_overwrites rm ows) = Inr []"
    unfolding map_overwrites_def using loop_none by blast
next
  fix out assume "snd (map_overwrites rm ows) = Inr out"
  then have "fst ` set out \<subseteq> fst ` set ([] :: overwrites) \<union>
     {h. \<exists>ow\<in>set ows. resolves rm ow \<and> (\<exists>k. py_int (ow_id ow) = Some k \<and> map_of rm k = Some h)}"
    unfolding map_overwrites_def by (rule loop_keys)
  then show "fst ` set out \<subseteq>
        {h. \<exists>ow\<in>set ows. ow_type ow = 0 \<and>
              (\<exists>k. py_int (ow_id ow) = Some k \<and> map_of rm k = Some h)}"
    unfolding resolves_def by fastforce
qed

text \<open>The definitions a concrete run of the text functions unfolds.\<close>

lemmas py_text_defs =
  py_isdigit_def is_digit_def is_digit_char_def py_int_def py_strip_def py_isspace_def
  int_strip_def int_isspace_def valid_int_body_def digits_value_def digit_val_def
  py_int_default_def

lemma decimal_examples:
  "py_int ''5'' = Some 5" "py_int ''7'' = Some 7" "py_int ''9'' = Some 9" "py_int ''8'' = Some 8"
  "py_isdigit ''5''" "py_isdigit ''7''" "py_isdigit ''9''"
  by (simp_all add: py_text_defs)

lemma map_overwrites_decimal_ids_example:
  "snd (map_overwrites [(5, 1)]
          [\<lparr>ow_type = 1, ow_id = ''5'', ow_allow = Some ''8'', ow_deny = None\<rparr>,
           \<lparr>ow_type = 0, ow_id = ''7'', ow_allow = Some ''8'', ow_deny = None\<rparr>]) = Inr [] \<and>
   snd (map_overwrites [(5, 1)]
          [\<lparr>ow_type = 1, ow_id = ''9'', ow_allow = None, ow_deny = None\<rparr>,
           \<lparr>ow_type = 0, ow_id = ''5'', ow_allow = Some ''8'', ow_deny = None\<rparr>]) = Inr [(1, 8, 0)]"
  by (simp add: map_overwrites_def decimal_examples py_int_default_def)

section \<open>Verification: the role cloner\<close>

lemma write_calls_append: "write_calls (a @ b) = write_calls a @ write_calls b"
  by (induction a rule: write_calls.induct) simp_all

lemma http_requests_append: "http_requests (a @ b) = http_requests a @ http_requests b"
  by (induction a rule: http_requests.induct) simp_all

lemma followups_append: "followups (a @ b) = followups a @ followups b"
  by (induction a rule: followups.induct) simp_all

lemma fst_prepend: "fst (prepend ev r) = ev @ fst r"
  by (cases r) (simp add: prepend_def)

lemma snd_prepend: "snd (prepend ev r) = snd r"
  by (cases r) (simp add: prepend_def)

lemma mo_loop_events:
  "write_calls (fst (map_overwrites_loop rm mapped ows)) = [] \<and>
   http_requests (fst (map_overwrites_loop rm mapped ows)) = [] \<and>
   followups (fst (map_overwrites_loop rm mapped ows)) = []"
proof (induction ows arbitrary: mapped)
  case Nil
  show ?case by simp
next
  case (Cons ow ows)
  show ?case
  proof (cases "map_overwrites_loop rm mapped ows")
    case (Pair ev r)
    with Cons[of mapped] have p: "write_calls ev = []" "http_requests ev = []" "followups ev = []"
      by simp_all
    show ?thesis using Cons p Pair
      by (simp split: option.splits sum.splits)
  qed
qed

lemma create_roles_calls:
  "\<exists>p kws. prefix p roles \<and>
      write_calls (fst (create_roles env user d rm roles)) = map CreateRole kws \<and>
      map (make_role_kwargs user) p = map Inr kws \<and>
      http_requests (fst (create_roles env user d rm roles)) = [] \<and>
      (\<forall>rm'. snd (snd (create_roles env user d rm roles)) = Inr rm' \<longrightarrow>
          fst ` set rm' \<subseteq> fst ` set rm \<union> {k. \<exists>r\<in>set p. py_int (r_id r) = Some k})"
proof (induction roles arbitrary: d rm)
  case Nil
  show ?case by (rule exI[of _ "[]"], rule exI[of _ "[]"]) simp
next
  case (Cons role roles)
  show ?case
  proof (cases "py_int (r_id role)")
    case None
    show ?thesis by (rule exI[of _ "[]"], rule exI[of _ "[]"]) (simp add: None)
  next
    case (Some k)
    show ?thesis
    proof (cases "make_role_kwargs user role")
      case (Inl e)
      show ?thesis by (rule exI[of _ "[]"], rule exI[of _ "[]"]) (simp add: Some Inl)
    next
      case (Inr kw)
      obtain out d' where dc: "dest_call env d (CreateRole kw) = (out, d')"
        by (cases "dest_call env d (CreateRole kw)")
      show ?thesis
      proof (cases out)
        case (Created h)
        from Cons[of d' "AList.update k h rm"] obtain p kws where
          ih: "prefix p roles"
            "write_calls (fst (create_roles env user d' (AList.update k h rm) roles)) = map CreateRole kws"
            "map (make_role_kwargs user) p = map Inr kws"
            "http_requests (fst (create_roles env user d' (AList.update k h rm) roles)) = []"
            "\<forall>rm'. snd (snd (create_roles env user d' (AList.update k h rm) roles)) = Inr rm' \<longrightarrow>
               fst ` set rm' \<subseteq> fst ` set (AList.update k h rm) \<union> {k. \<exists>r\<in>set p. py_int (r_id r) = Some k}"
          by blast
        have e: "create_roles env user d rm (role # roles) =
            prepend [Write (CreateRole kw), Sleep 1]
              (create_roles env user d' (AList.update k h rm) roles)"
          by (simp add: Some Inr dc Created)
        show ?thesis
        proof (rule exI[of _ "role # p"], rule exI[of _ "kw # kws"], intro conjI allI impI)
          show "prefix (role # p) (role # roles)" using ih(1) by simp
          show "write_calls (fst (create_roles env user d rm (role # roles))) = map CreateRole (kw # kws)"
            by (simp add: e fst_prepend ih(2) del: create_roles.simps)
          show "map (make_role_kwargs user) (role # p) = map Inr (kw # kws)"
            by (simp add: Inr ih(3))
          show "http_requests (fst (create_roles env user d rm (role # roles))) = []"
            by (simp add: e fst_prepend ih(4) del: create_roles.simps)
        next
          fix rm' assume "snd (snd (create_roles env user d rm (role # roles))) = Inr rm'"
          then have "snd (snd (create_roles env user d' (AList.update k h rm) roles)) = Inr rm'"
            by (simp add: e snd_prepend del: create_roles.simps)
          with ih(5) have "fst ` set rm' \<subseteq> fst ` set (AList.update k h rm) \<union> {k. \<exists>r\<in>set p. py_int (r_id r) = Some k}"
            by blast
          moreover have "fst ` set (AList.update k h rm) = {k} \<union> fst ` set rm" by (rule dom_update)
          ultimately show "fst ` set rm' \<subseteq> fst ` set rm \<union> {k. \<exists>r\<in>set (role # p). py_int (r_id r) = Some k}"
            using Some by auto
        qed
      next
        case RaiseForbidden
        have e: "create_roles env user d rm (role # roles) =
            ([Write (CreateRole kw), Followup (MsgRoleForbidden (rk_name kw)) True], d', Inr rm)"
          by (simp add: Some Inr dc RaiseForbidden)
        show ?thesis
          by (rule exI[of _ "[role]"], rule exI[of _ "[kw]"]) (simp add: e Inr del: create_roles.simps)
      next
        case (RaiseOther x)
        from Cons[of d' rm] obtain p kws where
          ih: "prefix p roles"
            "write_calls (fst (create_roles env user d' rm roles)) = map CreateRole kws"
            "map (make_role_kwargs user) p = map Inr kws"
            "http_requests (fst (create_roles env user d' rm roles)) = []"
            "\<forall>rm'. snd (snd (create_roles env user d' rm roles)) = Inr rm' \<longrightarrow>
               fst ` set rm' \<subseteq> fst ` set rm \<union> {k. \<exists>r\<in>set p. py_int (r_id r) = Some k}"
          by blast
        have e: "create_roles env user d rm (role # roles) =
            prepend [Write (CreateRole kw), Followup (MsgRoleError (rk_name kw) x) True,
                     Print (LogRoleError x)]
              (create_roles env user d' rm roles)"
          by (simp add: Some Inr dc RaiseOther)
        show ?thesis
        proof (rule exI[of _ "role # p"], rule exI[of _ "kw # kws"], intro conjI allI impI)
          show "prefix (role # p) (role # roles)" using ih(1) by simp
          show "write_calls (fst (create_roles env user d rm (role # roles))) = map CreateRole (kw # kws)"
            by (simp add: e fst_prepend ih(2) del: create_roles.simps)
          show "map (make_role_kwargs user) (role # p) = map Inr (kw # kws)"
            by (simp add: Inr ih(3))
          show "http_requests (fst (create_roles env user d rm (role # roles))) = []"
            by (simp add: e fst_prepend ih(4) del: create_roles.simps)
        next
          fix rm' assume "snd (snd (create_roles env user d rm (role # roles))) = Inr rm'"
          then have "snd (snd (create_roles env user d' rm roles)) = Inr rm'"
            by (simp add: e snd_prepend del: create_roles.simps)
          with ih(5) have "fst ` set rm' \<subseteq> fst ` set rm \<union> {k. \<exists>r\<in>set p. py_int (r_id r) = Some k}"
            by blast
          then show "fst ` set rm' \<subseteq> fst ` set rm \<union> {k. \<exists>r\<in>set (role # p). py_int (r_id r) = Some k}"
            by auto
        qed
      qed
    qed
  qed
qed


lemma clone_roles_user_ok:
  assumes "requests_send env (make_request ''GET'' (''/guilds/'' @ origem_id @ ''/roles'') user_token None) = Inr response"
    and "status_code response = 200"
    and "json_roles env (body response) = Inr roles_data"
  shows "write_calls (fst (clone_roles_user env d user user_token origem_id)) =
           write_calls (fst (create_roles env user d [] (roles_to_copy roles_data)))"
    and "snd (snd (clone_roles_user env d user user_token origem_id)) =
           snd (snd (create_roles env user d [] (roles_to_copy roles_data)))"
proof -
  obtain ev d' r where c: "create_roles env user d [] (roles_to_copy roles_data) = (ev, d', r)"
    by (cases "create_roles env user d [] (roles_to_copy roles_data)")
  show "write_calls (fst (clone_roles_user env d user user_token origem_id)) =
           write_calls (fst (create_roles env user d [] (roles_to_copy roles_data)))"
    using assms c
    by (cases r) (simp_all add: clone_roles_user_def api_request_def write_calls_append)
  show "snd (snd (clone_roles_user env d user user_token origem_id)) =
           snd (snd (create_roles env user d [] (roles_to_copy roles_data)))"
    using assms c
    by (cases r) (simp_all add: clone_roles_user_def api_request_def)
qed

lemma roles_to_copy_set:
  "set (roles_to_copy roles_data) = {r \<in> set roles_data. \<not> is_managed r \<and> \<not> is_everyone r}"
  by (auto simp: roles_to_copy_def)

lemma roles_to_copy_sorted:
  "sorted (map (\<lambda>r. get_position (r_position r)) (roles_to_copy roles_data))"
  by (simp add: roles_to_copy_def)

lemma prefix_sorted_map:
  "prefix p xs \<Longrightarrow> sorted (map f xs) \<Longrightarrow> sorted (map f p)"
  by (auto simp: prefix_def sorted_append)

text \<open>
  Claim C4. When the role request succeeds, the create-role calls of the role cloner
  are, one for one and in order, the keyword arguments of a prefix \<open>p\<close> of the
  filtered and sorted records. No record of \<open>p\<close> is managed or the \<open>@everyone\<close>
  role, every key of the resulting role mapping is the identifier of a record of
  \<open>p\<close>, and so the identifier of a managed or \<open>@everyone\<close> record, identifiers
  being unique, is never a key.
\<close>

theorem excluded_roles_never_cloned:
  assumes "requests_send env (make_request ''GET'' (''/guilds/'' @ origem_id @ ''/roles'') user_token None) = Inr response"
    and "status_code response = 200"
    and "json_roles env (body response) = Inr roles_data"
  shows "\<exists>p kws. prefix p (roles_to_copy roles_data) \<and>
      write_calls (fst (clone_roles_user env d user user_token origem_id)) = map CreateRole kws \<and>
      map (make_role_kwargs user) p = map Inr kws \<and>
      (\<forall>r\<in>set p. r \<in> set roles_data \<and> \<not> is_managed r \<and> \<not> is_everyone r) \<and>
      (\<forall>rm. snd (snd (clone_roles_user env d user user_token origem_id)) = Inr rm \<longrightarrow>
         (\<forall>k\<in>fst ` set rm. \<exists>r\<in>set p. py_int (r_id r) = Some k) \<and>
         (\<forall>r\<in>set roles_data. is_managed r \<or> is_everyone r \<longrightarrow>
            (\<forall>r'\<in>set roles_data. py_int (r_id r') = py_int (r_id r) \<longrightarrow> r' = r) \<longrightarrow>
            (\<forall>k. py_int (r_id r) = Some k \<longrightarrow> k \<notin> fst ` set rm)))"
proof -
  let ?run = "create_roles env user d [] (roles_to_copy roles_data)"
  from create_roles_calls[of "roles_to_copy roles_data" env user d "[]"] obtain p kws where
    p: "prefix p (roles_to_copy roles_data)"
      "write_calls (fst ?run) = map CreateRole kws"
      "map (make_role_kwargs user) p = map Inr kws"
      "\<forall>rm'. snd (snd ?run) = Inr rm' \<longrightarrow>
          fst ` set rm' \<subseteq> fst ` set ([] :: role_mapping) \<union> {k. \<exists>r\<in>set p. py_int (r_id r) = Some k}"
    by blast
  note ok = clone_roles_user_ok[OF assms, of d user]
  have sub: "set p \<subseteq> set (roles_to_copy roles_data)" using p(1) by (rule set_mono_prefix)
  have copy: "\<forall>r\<in>set p. r \<in> set roles_data \<and> \<not> is_managed r \<and> \<not> is_everyone r"
    using sub roles_to_copy_set[of roles_data] by blast
  have keys: "\<forall>k\<in>fst ` set rm. \<exists>r\<in>set p. py_int (r_id r) = Some k"
    if "snd (snd (clone_roles_user env d user user_token origem_id)) = Inr rm" for rm
  proof -
    from that ok(2) have "snd (snd ?run) = Inr rm" by simp
    with p(4) have "fst ` set rm \<subseteq> {k. \<exists>r\<in>set p. py_int (r_id r) = Some k}" by simp
    then show ?thesis by blast
  qed
  have excl: "k \<notin> fst ` set rm"
    if rm: "snd (snd (clone_roles_user env d user user_token origem_id)) = Inr rm"
      and r: "r \<in> set roles_data" "is_managed r \<or> is_everyone r"
      and u: "\<forall>r'\<in>set roles_data. py_int (r_id r') = py_int (r_id r) \<longrightarrow> r' = r"
      and k: "py_int (r_id r) = Some k" for rm r k
  proof
    assume "k \<in> fst ` set rm"
    with keys[OF rm] obtain r' where r': "r' \<in> set p" "py_int (r_id r') = Some k" by blast
    with copy have c: "r' \<in> set roles_data" "\<not> is_managed r'" "\<not> is_everyone r'" by auto
    from u c(1) r'(2) k have "r' = r" by simp
    with c r(2) show False by simp
  qed
  show ?thesis
  proof (rule exI[of _ p], rule exI[of _ kws], intro conjI)
    show "prefix p (roles_to_copy roles_data)" by (rule p(1))
    show "write_calls (fst (clone_roles_user env d user user_token origem_id)) = map CreateRole kws"
      using ok(1) p(2) by simp
    show "map (make_role_kwargs user) p = map Inr kws" by (rule p(3))
    show "\<forall>r\<in>set p. r \<in> set roles_data \<and> \<not> is_managed r \<and> \<not> is_everyone r" by (rule copy)
    show "\<forall>rm. snd (snd (clone_roles_user env d user user_token origem_id)) = Inr rm \<longrightarrow>
         (\<forall>k\<in>fst ` set rm. \<exists>r\<in>set p. py_int (r_id r) = Some k) \<and>
         (\<forall>r\<in>set roles_data. is_managed r \<or> is_everyone r \<longrightarrow>
            (\<forall>r'\<in>set roles_data. py_int (r_id r') = py_int (r_id r) \<longrightarrow> r' = r) \<longrightarrow>
            (\<forall>k. py_int (r_id r) = Some k \<longrightarrow> k \<notin> fst ` set rm))"
      using keys excl by blast
  qed
qed

text \<open>
  Claim C8. The create-role calls are issued for a prefix of the filtered records
  sorted by \<open>position\<close>, in that order: the positions of the records the calls are
  issued for never decrease.
\<close>

theorem role_creation_order_by_position:
  assumes "requests_send env (make_request ''GET'' (''/guilds/'' @ origem_id @ ''/roles'') user_token None) = Inr response"
    and "status_code response = 200"
    and "json_roles env (body response) = Inr roles_data"
  shows "\<exists>p kws. prefix p (roles_to_copy roles_data) \<and>
      write_calls (fst (clone_roles_user env d user user_token origem_id)) = map CreateRole kws \<and>
      map (make_role_kwargs user) p = map Inr kws \<and>
      sorted (map (\<lambda>r. get_position (r_position r)) p)"
proof -
  let ?run = "create_roles env user d [] (roles_to_copy roles_data)"
  from create_roles_calls[of "roles_to_copy roles_data" env user d "[]"] obtain p kws where
    p: "prefix p (roles_to_copy roles_data)"
      "write_calls (fst ?run) = map CreateRole kws"
      "map (make_role_kwargs user) p = map Inr kws"
    by blast
  note ok = clone_roles_user_ok[OF assms, of d user]
  have "sorted (map (\<lambda>r. get_position (r_position r)) p)"
    using p(1) roles_to_copy_sorted by (rule prefix_sorted_map)
  with p ok(1) show ?thesis by auto
qed


text \<open>The definitions a run in the concrete world unfolds.\<close>

lemmas demo_defs =
  demo_env_def demo_roles_def demo_role_def demo_channels_def demo_channel_def
  make_request_def DISCORD_API_BASE_def

lemma demo_roles_fetch:
  "requests_send (demo_env 200) (make_request ''GET'' (''/guilds/'' @ ''1'' @ ''/roles'') ''tok'' None)
     = Inr \<lparr>status_code = 200, body = ''roles''\<rparr>"
  "status_code \<lparr>status_code = 200, body = ''roles''\<rparr> = 200"
  "json_roles (demo_env 200) (body \<lparr>status_code = 200, body = ''roles''\<rparr>) = Inr demo_roles"
  by (simp_all add: demo_env_def make_request_def)

lemma demo_roles_run:
  "clone_roles_user (demo_env 200) 0 ''u'' ''tok'' ''1'' =
     ([HttpRequest (make_request ''GET'' ''/guilds/1/roles'' ''tok'' None),
       Followup (MsgCopyingRoles 2) False,
       Write (CreateRole \<lparr>rk_name = ''Low'', rk_permissions = 8, rk_color = 0, rk_hoist = False,
                          rk_mentionable = False, rk_reason_user = ''u''\<rparr>),
       Sleep 1,
       Write (CreateRole \<lparr>rk_name = ''Mod'', rk_permissions = 8, rk_color = 0, rk_hoist = False,
                          rk_mentionable = False, rk_reason_user = ''u''\<rparr>),
       Sleep 1,
       Followup MsgRolesCopied False],
      2, Inr [(3, 0), (1, 1)])"
  by (simp add: clone_roles_user_def api_request_def demo_defs roles_to_copy_def py_text_defs
        prepend_def make_role_kwargs_def is_managed_def is_everyone_def get_position_def)

theorem excluded_roles_never_cloned_witness:
  "(\<exists>p kws. prefix p (roles_to_copy demo_roles) \<and>
      write_calls (fst (clone_roles_user (demo_env 200) 0 ''u'' ''tok'' ''1'')) = map CreateRole kws \<and>
      map (make_role_kwargs ''u'') p = map Inr kws \<and>
      (\<forall>r\<in>set p. r \<in> set demo_roles \<and> \<not> is_managed r \<and> \<not> is_everyone r) \<and>
      (\<forall>rm. snd (snd (clone_roles_user (demo_env 200) 0 ''u'' ''tok'' ''1'')) = Inr rm \<longrightarrow>
         (\<forall>k\<in>fst ` set rm. \<exists>r\<in>set p. py_int (r_id r) = Some k) \<and>
         (\<forall>r\<in>set demo_roles. is_managed r \<or> is_everyone r \<longrightarrow>
            (\<forall>r'\<in>set demo_roles. py_int (r_id r') = py_int (r_id r) \<longrightarrow> r' = r) \<longrightarrow>
            (\<forall>k. py_int (r_id r) = Some k \<longrightarrow> k \<notin> fst ` set rm)))) \<and>
   snd (snd (clone_roles_user (demo_env 200) 0 ''u'' ''tok'' ''1'')) = Inr [(3, 0), (1, 1)]"
  using excluded_roles_never_cloned[OF demo_roles_fetch, of 0 "''u''"] demo_roles_run
  by simp

theorem role_creation_order_by_position_witness:
  "(\<exists>p kws. prefix p (roles_to_copy demo_roles) \<and>
      write_calls (fst (clone_roles_user (demo_env 200) 0 ''u'' ''tok'' ''1'')) = map CreateRole kws \<and>
      map (make_role_kwargs ''u'') p = map Inr kws \<and>
      sorted (map (\<lambda>r. get_position (r_position r)) p)) \<and>
   map rk_name [kw. CreateRole kw \<leftarrow> write_calls (fst (clone_roles_user (demo_env 200) 0 ''u'' ''tok'' ''1''))]
     = [''Low'', ''Mod''] \<and>
   map (\<lambda>r. (r_name r, r_position r)) (roles_to_copy demo_roles)
     = [(Some ''Low'', Some 1), (Some ''Mod'', Some 2)]"
proof -
  have s: "map (\<lambda>r. (r_name r, r_position r)) (roles_to_copy demo_roles)
     = [(Some ''Low'', Some 1), (Some ''Mod'', Some 2)]"
    by (simp add: roles_to_copy_def demo_defs is_managed_def is_everyone_def get_position_def)
  show ?thesis
    using role_creation_order_by_position[OF demo_roles_fetch, of 0 "''u''"] s
    by (simp add: demo_roles_run)
qed

section \<open>Verification: the command\<close>

lemma api_request_get:
  "api_request env ''GET'' ep tok None =
     ([HttpRequest (make_request ''GET'' ep tok None)],
      requests_send env (make_request ''GET'' ep tok None))"
  by (simp add: api_request_def)

text \<open>
  Claim C3. When the destination identifier parses and the bot's cache has no such
  guild, or the bot is not an administrator there, the command only acknowledges and
  sends one failure message: the trace has no read request, no create call, and the
  destination state is unchanged.
\<close>

theorem clone_precondition_fails_fast:
  assumes "py_int destino_id = Some gid"
    and "get_guild env gid = None \<or> (\<exists>g. get_guild env gid = Some g \<and> \<not> me_administrator g)"
  shows "(\<exists>m. clone_server_user_slash env d user user_token origem_id destino_id =
            ([Defer False, Followup m False], d) \<and>
            (m = MsgDestNotFound destino_id \<or> m = MsgNeedAdmin)) \<and>
         http_requests (fst (clone_server_user_slash env d user user_token origem_id destino_id)) = [] \<and>
         write_calls (fst (clone_server_user_slash env d user user_token origem_id destino_id)) = [] \<and>
         length (followups (fst (clone_server_user_slash env d user user_token origem_id destino_id))) = 1"
proof -
  from assms have
    "clone_body env d user user_token origem_id destino_id =
       ([Followup (MsgDestNotFound destino_id) False], d, Inr ()) \<or>
     clone_body env d user user_token origem_id destino_id =
       ([Followup MsgNeedAdmin False], d, Inr ())"
    by (auto simp: clone_body_def)
  then show ?thesis
    by (auto simp: clone_server_user_slash_def)
qed

theorem clone_precondition_fails_fast_witness:
  "clone_server_user_slash (demo_env 200) 0 ''u'' ''tok'' ''1'' ''3'' =
     ([Defer False, Followup MsgNeedAdmin False], 0) \<and>
   clone_server_user_slash (demo_env 200) 0 ''u'' ''tok'' ''1'' ''4'' =
     ([Defer False, Followup (MsgDestNotFound ''4'') False], 0) \<and>
   http_requests (fst (clone_server_user_slash (demo_env 200) 0 ''u'' ''tok'' ''1'' ''3'')) = [] \<and>
   write_calls (fst (clone_server_user_slash (demo_env 200) 0 ''u'' ''tok'' ''1'' ''3'')) = []"
proof -
  have p: "py_int ''3'' = Some 3" "py_int ''4'' = Some 4" by (simp_all add: py_text_defs)
  have g3: "get_guild (demo_env 200) 3 = None \<or>
      (\<exists>g. get_guild (demo_env 200) 3 = Some g \<and> \<not> me_administrator g)"
    by (simp add: demo_env_def)
  have g4: "get_guild (demo_env 200) 4 = None \<or>
      (\<exists>g. get_guild (demo_env 200) 4 = Some g \<and> \<not> me_administrator g)"
    by (simp add: demo_env_def)
  have e3: "clone_server_user_slash (demo_env 200) 0 ''u'' ''tok'' ''1'' ''3'' =
     ([Defer False, Followup MsgNeedAdmin False], 0)"
    by (simp add: clone_server_user_slash_def clone_body_def p demo_env_def)
  have e4: "clone_server_user_slash (demo_env 200) 0 ''u'' ''tok'' ''1'' ''4'' =
     ([Defer False, Followup (MsgDestNotFound ''4'') False], 0)"
    by (simp add: clone_server_user_slash_def clone_body_def p demo_env_def)
  from clone_precondition_fails_fast[OF p(1) g3, of 0 "''u''" "''tok''" "''1''"]
       clone_precondition_fails_fast[OF p(2) g4, of 0 "''u''" "''tok''" "''1''"] e3 e4
  show ?thesis by simp
qed

section \<open>Verification: the channel cloner\<close>

lemma mo_events:
  "write_calls (fst (map_overwrites rm ows)) = []"
  "http_requests (fst (map_overwrites rm ows)) = []"
  "followups (fst (map_overwrites rm ows)) = []"
  using mo_loop_events[of rm "[]" ows] by (simp_all add: map_overwrites_def)

lemma resolve_parent_events:
  "write_calls (fst (resolve_parent cm ch)) = []"
  "http_requests (fst (resolve_parent cm ch)) = []"
  "followups (fst (resolve_parent cm ch)) = []"
  by (simp_all add: resolve_parent_def split: option.splits)

lemma channel_call_Some:
  "channel_call user ch ovw cat = Some call \<Longrightarrow>
     creatable ch \<and> is_channel_call call \<and> call_name call = c_name ch \<and> call_category call = cat"
  by (auto simp: channel_call_def creatable_def Let_def split: if_splits)

lemma channel_call_None:
  "channel_call user ch ovw cat = None \<Longrightarrow> \<not> creatable ch"
  by (auto simp: channel_call_def creatable_def Let_def split: if_splits)

lemma creatable_not_category: "creatable ch \<Longrightarrow> c_type ch \<noteq> Some 4"
  by (auto simp: creatable_def)

lemma create_categories_calls:
  "\<exists>p cks. prefix p (filter (\<lambda>c. c_type c = Some 4) channels) \<and>
      write_calls (fst (create_categories env user rm d cm channels)) = map CreateCategory cks \<and>
      map cat_name cks = map c_name p \<and>
      http_requests (fst (create_categories env user rm d cm channels)) = [] \<and>
      filter is_roles_fetch_report (followups (fst (create_categories env user rm d cm channels))) = []"
proof (induction channels arbitrary: d cm)
  case Nil
  show ?case by (rule exI[of _ "[]"], rule exI[of _ "[]"]) simp
next
  case (Cons ch chs)
  show ?case
  proof (cases "c_type ch = Some 4")
    case False
    then show ?thesis using Cons[of d cm] by simp
  next
    case cat: True
    show ?thesis
    proof (cases "py_int (c_id ch)")
      case None
      show ?thesis by (rule exI[of _ "[]"], rule exI[of _ "[]"]) (simp add: cat None)
    next
      case (Some k)
      obtain evo r where mo: "map_overwrites rm (get_overwrites ch) = (evo, r)"
        by (cases "map_overwrites rm (get_overwrites ch)")
      from mo_events[of rm "get_overwrites ch"] mo have q:
        "write_calls evo = []" "http_requests evo = []" "followups evo = []" by simp_all
      show ?thesis
      proof (cases r)
        case (Inl e)
        show ?thesis
          by (rule exI[of _ "[]"], rule exI[of _ "[]"]) (simp add: cat Some mo Inl q)
      next
        case (Inr ovw)
        let ?kw = "\<lparr>cat_name = c_name ch, cat_overwrites = ovw, cat_reason_user = user\<rparr>"
        obtain out d' where dc: "dest_call env d (CreateCategory ?kw) = (out, d')"
          by (cases "dest_call env d (CreateCategory ?kw)")
        show ?thesis
        proof (cases out)
          case (Created h)
          have e: "create_categories env user rm d cm (ch # chs) =
              prepend (evo @ [Write (CreateCategory ?kw), Sleep 1])
                (create_categories env user rm d' (AList.update k h cm) chs)"
            by (simp add: cat Some mo Inr dc Created)
          from Cons[of d' "AList.update k h cm"] obtain p cks where
            ih: "prefix p (filter (\<lambda>c. c_type c = Some 4) chs)"
              "write_calls (fst (create_categories env user rm d' (AList.update k h cm) chs)) = map CreateCategory cks"
              "map cat_name cks = map c_name p"
              "http_requests (fst (create_categories env user rm d' (AList.update k h cm) chs)) = []"
              "filter is_roles_fetch_report (followups (fst (create_categories env user rm d' (AList.update k h cm) chs))) = []"
            by blast
          show ?thesis
            by (rule exI[of _ "ch # p"], rule exI[of _ "?kw # cks"])
               (simp add: e fst_prepend write_calls_append http_requests_append followups_append
                  q ih cat del: create_categories.simps)
        next
          case RaiseForbidden
          have e: "create_categories env user rm d cm (ch # chs) =
              (evo @ [Write (CreateCategory ?kw), Followup (MsgCategoryForbidden (c_name ch)) True],
               d', Inr cm)"
            by (simp add: cat Some mo Inr dc RaiseForbidden)
          show ?thesis
            by (rule exI[of _ "[ch]"], rule exI[of _ "[?kw]"])
               (simp add: e write_calls_append http_requests_append followups_append q cat
                  del: create_categories.simps)
        next
          case (RaiseOther x)
          have e: "create_categories env user rm d cm (ch # chs) =
              prepend (evo @ [Write (CreateCategory ?kw),
                              Followup (MsgCategoryError (c_name ch) x) True,
                              Print (LogCategoryError x)])
                (create_categories env user rm d' cm chs)"
            by (simp add: cat Some mo Inr dc RaiseOther)
          from Cons[of d' cm] obtain p cks where
            ih: "prefix p (filter (\<lambda>c. c_type c = Some 4) chs)"
              "write_calls (fst (create_categories env user rm d' cm chs)) = map CreateCategory cks"
              "map cat_name cks = map c_name p"
              "http_requests (fst (create_categories env user rm d' cm chs)) = []"
              "filter is_roles_fetch_report (followups (fst (create_categories env user rm d' cm chs))) = []"
            by blast
          show ?thesis
            by (rule exI[of _ "ch # p"], rule exI[of _ "?kw # cks"])
               (simp add: e fst_prepend write_calls_append http_requests_append followups_append
                  q ih cat del: create_categories.simps)
        qed
      qed
    qed
  qed
qed

lemma create_channels_calls:
  "\<exists>q. prefix q (filter creatable channels) \<and>
      list_all is_channel_call (write_calls (fst (create_channels env user rm cm d channels))) \<and>
      map call_name (write_calls (fst (create_channels env user rm cm d channels))) = map c_name q \<and>
      http_requests (fst (create_channels env user rm cm d channels)) = [] \<and>
      filter is_roles_fetch_report (followups (fst (create_channels env user rm cm d channels))) = []"
proof (induction channels arbitrary: d)
  case Nil
  show ?case by (rule exI[of _ "[]"]) simp
next
  case (Cons ch chs)
  show ?case
  proof (cases "c_type ch = Some 4")
    case True
    then have "\<not> creatable ch" using creatable_not_category by blast
    then show ?thesis using Cons[of d] True by simp
  next
    case nc: False
    obtain evp cat where rp: "resolve_parent cm ch = (evp, cat)"
      by (cases "resolve_parent cm ch")
    from resolve_parent_events[of cm ch] rp have qp:
      "write_calls evp = []" "http_requests evp = []" "followups evp = []" by simp_all
    obtain evo r where mo: "map_overwrites rm (get_overwrites ch) = (evo, r)"
      by (cases "map_overwrites rm (get_overwrites ch)")
    from mo_events[of rm "get_overwrites ch"] mo have qo:
      "write_calls evo = []" "http_requests evo = []" "followups evo = []" by simp_all
    show ?thesis
    proof (cases r)
      case (Inl e)
      show ?thesis
        by (rule exI[of _ "[]"])
           (simp add: nc rp mo Inl qp qo write_calls_append http_requests_append followups_append)
    next
      case (Inr ovw)
      show ?thesis
      proof (cases "channel_call user ch ovw cat")
        case None
        have e: "create_channels env user rm cm d (ch # chs) =
            prepend (evp @ evo @ [Sleep 1]) (create_channels env user rm cm d chs)"
          by (simp add: nc rp mo Inr None)
        from channel_call_None[OF None] have ncr: "\<not> creatable ch" .
        from Cons[of d] obtain q where
          ih: "prefix q (filter creatable chs)"
            "list_all is_channel_call (write_calls (fst (create_channels env user rm cm d chs)))"
            "map call_name (write_calls (fst (create_channels env user rm cm d chs))) = map c_name q"
            "http_requests (fst (create_channels env user rm cm d chs)) = []"
            "filter is_roles_fetch_report (followups (fst (create_channels env user rm cm d chs))) = []"
          by blast
        show ?thesis
          by (rule exI[of _ q])
             (simp add: e fst_prepend write_calls_append http_requests_append followups_append
                qp qo ih ncr del: create_channels.simps)
      next
        case (Some call)
        from channel_call_Some[OF Some] have cc:
          "creatable ch" "is_channel_call call" "call_name call = c_name ch" by simp_all
        obtain out d' where dc: "dest_call env d call = (out, d')"
          by (cases "dest_call env d call")
        show ?thesis
        proof (cases out)
          case (Created h)
          have e: "create_channels env user rm cm d (ch # chs) =
              prepend (evp @ evo @ [Write call, Sleep 1]) (create_channels env user rm cm d' chs)"
            by (simp add: nc rp mo Inr Some dc Created)
          from Cons[of d'] obtain q where
            ih: "prefix q (filter creatable chs)"
              "list_all is_channel_call (write_calls (fst (create_channels env user rm cm d' chs)))"
              "map call_name (write_calls (fst (create_channels env user rm cm d' chs))) = map c_name q"
              "http_requests (fst (create_channels env user rm cm d' chs)) = []"
              "filter is_roles_fetch_report (followups (fst (create_channels env user rm cm d' chs))) = []"
            by blast
          show ?thesis
            by (rule exI[of _ "ch # q"])
               (simp add: e fst_prepend write_calls_append http_requests_append followups_append
                  qp qo ih cc del: create_channels.simps)
        next
          case RaiseForbidden
          have e: "create_channels env user rm cm d (ch # chs) =
              (evp @ evo @ [Write call, Followup (MsgChannelForbidden (c_name ch)) True], d', Inr ())"
            by (simp add: nc rp mo Inr Some dc RaiseForbidden)
          show ?thesis
            by (rule exI[of _ "[ch]"])
               (simp add: e write_calls_append http_requests_append followups_append
                  qp qo cc del: create_channels.simps)
        next
          case (RaiseOther x)
          have e: "create_channels env user rm cm d (ch # chs) =
              prepend (evp @ evo @ [Write call, Followup (MsgChannelError (c_name ch) x) True,
                                    Print (LogChannelError x)])
                (create_channels env user rm cm d' chs)"
            by (simp add: nc rp mo Inr Some dc RaiseOther)
          from Cons[of d'] obtain q where
            ih: "prefix q (filter creatable chs)"
              "list_all is_channel_call (write_calls (fst (create_channels env user rm cm d' chs)))"
              "map call_name (write_calls (fst (create_channels env user rm cm d' chs))) = map c_name q"
              "http_requests (fst (create_channels env user rm cm d' chs)) = []"
              "filter is_roles_fetch_report (followups (fst (create_channels env user rm cm d' chs))) = []"
            by blast
          show ?thesis
            by (rule exI[of _ "ch # q"])
               (simp add: e fst_prepend write_calls_append http_requests_append followups_append
                  qp qo ih cc del: create_channels.simps)
        qed
      qed
    qed
  qed
qed

lemma clone_channels_user_ok:
  assumes "requests_send env (make_request ''GET'' (''/guilds/'' @ origem_id @ ''/channels'') user_token None) = Inr response"
    and "status_code response = 200"
    and "json_channels env (body response) = Inr channels_data"
    and "create_categories env user rm d [] (channels_sorted channels_data) = (ev1, d1, r1)"
  shows "write_calls (fst (clone_channels_user env d user user_token origem_id rm)) =
           write_calls ev1 @
           (case r1 of Inl e \<Rightarrow> []
            | Inr cm \<Rightarrow> write_calls (fst (create_channels env user rm cm d1 (channels_sorted channels_data))))"
proof (cases r1)
  case (Inl e)
  then show ?thesis using assms
    by (simp add: clone_channels_user_def api_request_def fst_prepend write_calls_append)
next
  case (Inr cm)
  obtain ev2 d2 r2 where c: "create_channels env user rm cm d1 (channels_sorted channels_data) = (ev2, d2, r2)"
    by (cases "create_channels env user rm cm d1 (channels_sorted channels_data)")
  show ?thesis using assms Inr c
    by (cases r2) (simp_all add: clone_channels_user_def api_request_def fst_prepend write_calls_append)
qed

lemma clone_channels_user_no_writes:
  assumes "requests_send env (make_request ''GET'' (''/guilds/'' @ origem_id @ ''/channels'') user_token None) = Inl e
    \<or> (\<exists>response. requests_send env (make_request ''GET'' (''/guilds/'' @ origem_id @ ''/channels'') user_token None) = Inr response \<and>
          (status_code response \<noteq> 200 \<or> (\<exists>e'. json_channels env (body response) = Inl e')))"
  shows "write_calls (fst (clone_channels_user env d user user_token origem_id rm)) = []"
  using assms
  by (auto simp: clone_channels_user_def api_request_def write_calls_append)

lemma channel_phase_calls:
  "(\<exists>cks chs. write_calls (fst (clone_channels_user env d user user_token origem_id rm)) =
        map CreateCategory cks @ chs \<and> list_all is_channel_call chs) \<and>
   (\<forall>response channels_data.
      requests_send env (make_request ''GET'' (''/guilds/'' @ origem_id @ ''/channels'') user_token None) = Inr response \<and>
      status_code response = 200 \<and> json_channels env (body response) = Inr channels_data \<longrightarrow>
      (\<exists>p q cks chs.
          prefix p (filter (\<lambda>c. c_type c = Some 4) (channels_sorted channels_data)) \<and>
          prefix q (filter creatable (channels_sorted channels_data)) \<and>
          write_calls (fst (clone_channels_user env d user user_token origem_id rm)) =
            map CreateCategory cks @ chs \<and>
          map cat_name cks = map c_name p \<and>
          list_all is_channel_call chs \<and> map call_name chs = map c_name q))"
proof -
  let ?rq = "make_request ''GET'' (''/guilds/'' @ origem_id @ ''/channels'') user_token None"
  let ?w = "write_calls (fst (clone_channels_user env d user user_token origem_id rm))"
  have B: "\<exists>p q cks chs.
          prefix p (filter (\<lambda>c. c_type c = Some 4) (channels_sorted channels_data)) \<and>
          prefix q (filter creatable (channels_sorted channels_data)) \<and>
          ?w = map CreateCategory cks @ chs \<and>
          map cat_name cks = map c_name p \<and>
          list_all is_channel_call chs \<and> map call_name chs = map c_name q"
    if ok: "requests_send env ?rq = Inr response" "status_code response = 200"
      "json_channels env (body response) = Inr channels_data" for response channels_data
  proof -
    let ?cs = "channels_sorted channels_data"
    obtain ev1 d1 r1 where c1: "create_categories env user rm d [] ?cs = (ev1, d1, r1)"
      by (cases "create_categories env user rm d [] ?cs")
    from create_categories_calls[of ?cs env user rm d "[]"] c1 obtain p cks where
      p: "prefix p (filter (\<lambda>c. c_type c = Some 4) ?cs)"
        "write_calls ev1 = map CreateCategory cks" "map cat_name cks = map c_name p"
      by auto
    note w = clone_channels_user_ok[OF ok c1]
    show ?thesis
    proof (cases r1)
      case (Inl e)
      show ?thesis
        by (rule exI[of _ p], rule exI[of _ "[]"], rule exI[of _ cks], rule exI[of _ "[]"])
           (simp add: w Inl p)
    next
      case (Inr cm)
      from create_channels_calls[of ?cs env user rm cm d1] obtain q where
        q: "prefix q (filter creatable ?cs)"
          "list_all is_channel_call (write_calls (fst (create_channels env user rm cm d1 ?cs)))"
          "map call_name (write_calls (fst (create_channels env user rm cm d1 ?cs))) = map c_name q"
        by blast
      show ?thesis
        by (rule exI[of _ p], rule exI[of _ q], rule exI[of _ cks],
            rule exI[of _ "write_calls (fst (create_channels env user rm cm d1 ?cs))"])
           (simp add: w Inr p q)
    qed
  qed
  have A: "\<exists>cks chs. ?w = map CreateCategory cks @ chs \<and> list_all is_channel_call chs"
  proof (cases "requests_send env ?rq")
    case (Inl e)
    then have "?w = []" using clone_channels_user_no_writes[of env origem_id user_token e d user rm] by simp
    then show ?thesis by simp
  next
    case (Inr response)
    show ?thesis
    proof (cases "status_code response = 200")
      case False
      with Inr have "?w = []"
        using clone_channels_user_no_writes[of env origem_id user_token undefined d user rm] by blast
      then show ?thesis by simp
    next
      case st: True
      show ?thesis
      proof (cases "json_channels env (body response)")
        case (Inl e')
        with Inr have "?w = []"
          using clone_channels_user_no_writes[of env origem_id user_token undefined d user rm] by blast
        then show ?thesis by simp
      next
        case cd: (Inr channels_data)
        from B[OF Inr st cd] show ?thesis by blast
      qed
    qed
  qed
  from A B show ?thesis by blast
qed

lemma demo_channels_fetch:
  "requests_send (demo_env st) (make_request ''GET'' (''/guilds/'' @ ''1'' @ ''/channels'') ''tok'' None)
     = Inr \<lparr>status_code = 200, body = ''channels''\<rparr>"
  "status_code \<lparr>status_code = 200, body = ''channels''\<rparr> = 200"
  "json_channels (demo_env st) (body \<lparr>status_code = 200, body = ''channels''\<rparr>) = Inr demo_channels"
  by (simp_all add: demo_env_def make_request_def DISCORD_API_BASE_def)

lemma demo_channels_sorted:
  "channels_sorted demo_channels =
     [demo_channel ''10'' 4 ''General'' None 0, demo_channel ''11'' 0 ''chat'' (Some ''10'') 1,
      demo_channel ''12'' 2 ''voice'' (Some ''abc'') 2, demo_channel ''13'' 15 ''forum'' (Some ''abc'') 3]"
  by (simp add: channels_sorted_def demo_channels_def demo_channel_def get_position_def)

lemma demo_ints:
  "py_int ''10'' = Some 10" "py_int ''11'' = Some 11" "py_int ''abc'' = None"
  "py_int ''2'' = Some 2" "py_int ''1'' = Some 1"
  by (simp_all add: py_text_defs)

lemma demo_channels_run:
  "clone_channels_user (demo_env st) 0 ''u'' ''tok'' ''1'' [] =
     ([HttpRequest (make_request ''GET'' ''/guilds/1/channels'' ''tok'' None),
       Followup (MsgCopyingChannels 4) False,
       Write (CreateCategory \<lparr>cat_name = ''General'', cat_overwrites = [], cat_reason_user = ''u''\<rparr>),
       Sleep 1,
       Write (CreateTextChannel \<lparr>ch_name = ''chat'', ch_overwrites = [], ch_category = Some 0,
                ch_reason_user = ''u'', ch_topic = None, ch_slowmode_delay = None, ch_nsfw = False\<rparr>),
       Sleep 1,
       Print (LogParentId ''abc''),
       Write (CreateVoiceChannel \<lparr>ch_name = ''voice'', ch_overwrites = [], ch_category = None,
                ch_reason_user = ''u'', ch_user_limit = None, ch_bitrate = None\<rparr>),
       Sleep 1,
       Print (LogParentId ''abc''),
       Sleep 1,
       Followup MsgChannelsCopied False],
      3, Inr ())"
proof -
  have s: "length demo_channels = 4" by (simp add: demo_channels_def)
  have e: "dest_call (demo_env st) = (\<lambda>d c. (Created d, Suc d))" by (simp add: demo_env_def)
  have c1: "create_categories (demo_env st) ''u'' [] 0 [] (channels_sorted demo_channels) =
      ([Write (CreateCategory \<lparr>cat_name = ''General'', cat_overwrites = [], cat_reason_user = ''u''\<rparr>),
        Sleep 1], 1, Inr [(10, 0)])"
    by (simp add: demo_channels_sorted demo_channel_def demo_ints e map_overwrites_def
          get_overwrites_def prepend_def)
  have c2: "create_channels (demo_env st) ''u'' [] [(10, 0)] (Suc 0) (channels_sorted demo_channels) =
      ([Write (CreateTextChannel \<lparr>ch_name = ''chat'', ch_overwrites = [], ch_category = Some 0,
                ch_reason_user = ''u'', ch_topic = None, ch_slowmode_delay = None, ch_nsfw = False\<rparr>),
        Sleep 1,
        Print (LogParentId ''abc''),
        Write (CreateVoiceChannel \<lparr>ch_name = ''voice'', ch_overwrites = [], ch_category = None,
                ch_reason_user = ''u'', ch_user_limit = None, ch_bitrate = None\<rparr>),
        Sleep 1,
        Print (LogParentId ''abc''),
        Sleep 1], 3, Inr ())"
    by (simp add: demo_channels_sorted demo_channel_def demo_ints e map_overwrites_def
          get_overwrites_def prepend_def resolve_parent_def channel_call_def)
  show ?thesis
    using demo_channels_fetch(1,3)[of st]
    by (simp add: clone_channels_user_def api_request_def c1 c2 s prepend_def)
qed


lemma channels_sorted_sorted:
  "sorted (map (\<lambda>c. get_position (c_position c)) (channels_sorted channels_data))"
  by (simp add: channels_sorted_def)

lemma channels_sorted_mset: "mset (channels_sorted channels_data) = mset channels_data"
  by (simp add: channels_sorted_def)

text \<open>
  Claim C5. In every run of the channel cloner the create calls are the category
  calls of pass 1 followed by the channel calls of pass 2, so no channel call
  comes before a category call. When the channel request succeeds, both passes run
  over the fetched records rearranged in ascending order of \<open>position\<close>: the
  category calls are issued for a prefix of the records of type 4 of that list and
  the channel calls for a prefix of its records of a creatable type.
\<close>

theorem categories_before_channels:
  "(\<exists>cks chs. write_calls (fst (clone_channels_user env d user user_token origem_id rm)) =
        map CreateCategory cks @ chs \<and> list_all is_channel_call chs) \<and>
   (\<forall>response channels_data.
      requests_send env (make_request ''GET'' (''/guilds/'' @ origem_id @ ''/channels'') user_token None) = Inr response \<and>
      status_code response = 200 \<and> json_channels env (body response) = Inr channels_data \<longrightarrow>
      sorted (map (\<lambda>c. get_position (c_position c)) (channels_sorted channels_data)) \<and>
      mset (channels_sorted channels_data) = mset channels_data \<and>
      (\<exists>p q cks chs.
          prefix p (filter (\<lambda>c. c_type c = Some 4) (channels_sorted channels_data)) \<and>
          prefix q (filter creatable (channels_sorted channels_data)) \<and>
          write_calls (fst (clone_channels_user env d user user_token origem_id rm)) =
            map CreateCategory cks @ chs \<and>
          map cat_name cks = map c_name p \<and>
          list_all is_channel_call chs \<and> map call_name chs = map c_name q))"
proof -
  note c = channel_phase_calls[of env d user user_token origem_id rm]
  from c have A: "\<exists>cks chs. write_calls (fst (clone_channels_user env d user user_token origem_id rm)) =
        map CreateCategory cks @ chs \<and> list_all is_channel_call chs"
    by (rule conjunct1)
  from c have B: "\<forall>response channels_data.
      requests_send env (make_request ''GET'' (''/guilds/'' @ origem_id @ ''/channels'') user_token None) = Inr response \<and>
      status_code response = 200 \<and> json_channels env (body response) = Inr channels_data \<longrightarrow>
      (\<exists>p q cks chs.
          prefix p (filter (\<lambda>c. c_type c = Some 4) (channels_sorted channels_data)) \<and>
          prefix q (filter creatable (channels_sorted channels_data)) \<and>
          write_calls (fst (clone_channels_user env d user user_token origem_id rm)) =
            map CreateCategory cks @ chs \<and>
          map cat_name cks = map c_name p \<and>
          list_all is_channel_call chs \<and> map call_name chs = map c_name q)"
    by (rule conjunct2)
  show ?thesis
  proof (intro conjI allI impI)
    show "\<exists>cks chs. write_calls (fst (clone_channels_user env d user user_token origem_id rm)) =
        map CreateCategory cks @ chs \<and> list_all is_channel_call chs"
      by (rule A)
  next
    fix response :: http_response and channels_data
    show "sorted (map (\<lambda>c. get_position (c_position c)) (channels_sorted channels_data))"
      by (rule channels_sorted_sorted)
    show "mset (channels_sorted channels_data) = mset channels_data"
      by (rule channels_sorted_mset)
    assume "requests_send env (make_request ''GET'' (''/guilds/'' @ origem_id @ ''/channels'') user_token None) = Inr response \<and>
      status_code response = 200 \<and> json_channels env (body response) = Inr channels_data"
    with B show "\<exists>p q cks chs.
          prefix p (filter (\<lambda>c. c_type c = Some 4) (channels_sorted channels_data)) \<and>
          prefix q (filter creatable (channels_sorted channels_data)) \<and>
          write_calls (fst (clone_channels_user env d user user_token origem_id rm)) =
            map CreateCategory cks @ chs \<and>
          map cat_name cks = map c_name p \<and>
          list_all is_channel_call chs \<and> map call_name chs = map c_name q"
      by blast
  qed
qed

theorem categories_before_channels_witness:
  "sorted (map (\<lambda>c. get_position (c_position c)) (channels_sorted demo_channels)) \<and>
   mset (channels_sorted demo_channels) = mset demo_channels \<and>
   (\<exists>p q cks chs.
      prefix p (filter (\<lambda>c. c_type c = Some 4) (channels_sorted demo_channels)) \<and>
      prefix q (filter creatable (channels_sorted demo_channels)) \<and>
      write_calls (fst (clone_channels_user (demo_env 200) 0 ''u'' ''tok'' ''1'' [])) =
        map CreateCategory cks @ chs \<and>
      map cat_name cks = map c_name p \<and>
      list_all is_channel_call chs \<and> map call_name chs = map c_name q) \<and>
   map c_name demo_channels = [''voice'', ''chat'', ''General'', ''forum''] \<and>
   map c_name (channels_sorted demo_channels) = [''General'', ''chat'', ''voice'', ''forum''] \<and>
   map call_name (write_calls (fst (clone_channels_user (demo_env 200) 0 ''u'' ''tok'' ''1'' [])))
     = [''General'', ''chat'', ''voice'']"
proof -
  from categories_before_channels[of "demo_env 200" 0 "''u''" "''tok''" "''1''" "[]"]
  have "\<forall>response channels_data.
      requests_send (demo_env 200) (make_request ''GET'' (''/guilds/'' @ ''1'' @ ''/channels'') ''tok'' None) = Inr response \<and>
      status_code response = 200 \<and> json_channels (demo_env 200) (body response) = Inr channels_data \<longrightarrow>
      sorted (map (\<lambda>c. get_position (c_position c)) (channels_sorted channels_data)) \<and>
      mset (channels_sorted channels_data) = mset channels_data \<and>
      (\<exists>p q cks chs.
          prefix p (filter (\<lambda>c. c_type c = Some 4) (channels_sorted channels_data)) \<and>
          prefix q (filter creatable (channels_sorted channels_data)) \<and>
          write_calls (fst (clone_channels_user (demo_env 200) 0 ''u'' ''tok'' ''1'' [])) =
            map CreateCategory cks @ chs \<and>
          map cat_name cks = map c_name p \<and>
          list_all is_channel_call chs \<and> map call_name chs = map c_name q)"
    by (rule conjunct2)
  with demo_channels_fetch(1,3)[of 200] demo_channels_fetch(2) have
    "sorted (map (\<lambda>c. get_position (c_position c)) (channels_sorted demo_channels)) \<and>
     mset (channels_sorted demo_channels) = mset demo_channels \<and>
     (\<exists>p q cks chs.
      prefix p (filter (\<lambda>c. c_type c = Some 4) (channels_sorted demo_channels)) \<and>
      prefix q (filter creatable (channels_sorted demo_channels)) \<and>
      write_calls (fst (clone_channels_user (demo_env 200) 0 ''u'' ''tok'' ''1'' [])) =
        map CreateCategory cks @ chs \<and>
      map cat_name cks = map c_name p \<and>
      list_all is_channel_call chs \<and> map call_name chs = map c_name q)"
    by blast
  moreover have "map c_name demo_channels = [''voice'', ''chat'', ''General'', ''forum'']"
    by (simp add: demo_channels_def demo_channel_def)
  moreover have "map c_name (channels_sorted demo_channels) = [''General'', ''chat'', ''voice'', ''forum'']"
    by (simp add: demo_channels_sorted demo_channel_def)
  moreover have "map call_name (write_calls (fst (clone_channels_user (demo_env 200) 0 ''u'' ''tok'' ''1'' [])))
     = [''General'', ''chat'', ''voice'']"
    by (simp add: demo_channels_run)
  ultimately show ?thesis by blast
qed










section \<open>Verification: a failed role request\<close>

lemma error_report_quiet:
  "write_calls (error_report e) = []"
  "http_requests (error_report e) = []"
  "filter is_roles_fetch_report (followups (error_report e)) = []"
  by (cases e; simp add: error_report_def)+

lemma channel_calls_not_role:
  "list_all is_channel_call chs \<Longrightarrow> filter is_role_call chs = []"
proof (induction chs)
  case Nil
  show ?case by simp
next
  case (Cons c chs)
  then show ?case by (cases c) simp_all
qed

lemma category_calls_not_role: "filter is_role_call (map CreateCategory cks) = []"
  by (induction cks) simp_all

lemma channel_phase_no_role_call:
  "filter is_role_call (write_calls (fst (clone_channels_user env d user user_token origem_id rm))) = []"
proof -
  from channel_phase_calls[of env d user user_token origem_id rm] obtain cks chs where
    "write_calls (fst (clone_channels_user env d user user_token origem_id rm)) =
        map CreateCategory cks @ chs" "list_all is_channel_call chs"
    by blast
  then show ?thesis by (simp add: channel_calls_not_role category_calls_not_role)
qed

lemma channel_phase_head:
  "\<exists>rest. fst (clone_channels_user env d user user_token origem_id rm) =
      HttpRequest (make_request ''GET'' (''/guilds/'' @ origem_id @ ''/channels'') user_token None) # rest"
  by (simp add: clone_channels_user_def api_request_def prepend_def
        split: sum.splits prod.splits)

lemma channel_phase_no_roles_report:
  "filter is_roles_fetch_report
     (followups (fst (clone_channels_user env d user user_token origem_id rm))) = []"
proof -
  let ?rq = "make_request ''GET'' (''/guilds/'' @ origem_id @ ''/channels'') user_token None"
  show ?thesis
  proof (cases "requests_send env ?rq")
    case (Inl e)
    then show ?thesis by (simp add: clone_channels_user_def api_request_def)
  next
    case (Inr response)
    show ?thesis
    proof (cases "status_code response = 200")
      case False
      with Inr show ?thesis by (simp add: clone_channels_user_def api_request_def)
    next
      case st: True
      show ?thesis
      proof (cases "json_channels env (body response)")
        case (Inl e')
        with Inr st show ?thesis by (simp add: clone_channels_user_def api_request_def)
      next
        case cd: (Inr channels_data)
        let ?cs = "channels_sorted channels_data"
        obtain ev1 d1 r1 where c1: "create_categories env user rm d [] ?cs = (ev1, d1, r1)"
          by (cases "create_categories env user rm d [] ?cs")
        from create_categories_calls[of ?cs env user rm d "[]"] c1 have
          q1: "filter is_roles_fetch_report (followups ev1) = []" by auto
        show ?thesis
        proof (cases r1)
          case (Inl e)
          with Inr st cd c1 q1 show ?thesis
            by (simp add: clone_channels_user_def api_request_def prepend_def followups_append)
        next
          case cm: (Inr cm)
          obtain ev2 d2 r2 where c2: "create_channels env user rm cm d1 ?cs = (ev2, d2, r2)"
            by (cases "create_channels env user rm cm d1 ?cs")
          from create_channels_calls[of ?cs env user rm cm d1] c2 have
            q2: "filter is_roles_fetch_report (followups ev2) = []" by auto
          show ?thesis using Inr st cd c1 cm c2 q1 q2
            by (cases r2)
               (simp_all add: clone_channels_user_def api_request_def prepend_def followups_append)
        qed
      qed
    qed
  qed
qed

lemma error_report_once:
  "\<exists>m. followups (error_report e) = [m] \<and>
       (m = MsgInvalidId (exc_text e) \<or> m = MsgUnexpected (exc_text e))"
  by (cases e) (simp_all add: error_report_def)

text \<open>
  Claim C1, as amended. Past the precondition check, a role request answered with a
  status other than 200 ends only the role phase: the failure is reported once, no
  create-role call is issued and the role mapping is empty; the channel request is
  sent next and the create calls of the run are those of the channel cloner on the
  empty role mapping. A role request that raises, or whose body does not decode,
  aborts the whole command: the role request is the only request, no create call is
  issued, and after the start message there is exactly one follow-up, the error
  report.
\<close>

theorem role_fetch_failure_ends_role_phase_only:
  assumes "py_int destino_id = Some gid"
    and "get_guild env gid = Some g"
    and "me_administrator g"
  shows
  "(\<forall>response.
      requests_send env (make_request ''GET'' (''/guilds/'' @ origem_id @ ''/roles'') user_token None) = Inr response \<and>
      status_code response \<noteq> 200 \<longrightarrow>
      (\<exists>rest. fst (clone_server_user_slash env d user user_token origem_id destino_id) =
          [Defer False, Followup (MsgStart origem_id (g_name g)) False,
           HttpRequest (make_request ''GET'' (''/guilds/'' @ origem_id @ ''/roles'') user_token None),
           Followup (MsgRolesFetchFailed (status_code response)) False,
           HttpRequest (make_request ''GET'' (''/guilds/'' @ origem_id @ ''/channels'') user_token None)]
          @ rest) \<and>
      clone_roles_user env d user user_token origem_id =
        ([HttpRequest (make_request ''GET'' (''/guilds/'' @ origem_id @ ''/roles'') user_token None),
          Followup (MsgRolesFetchFailed (status_code response)) False], d, Inr []) \<and>
      filter is_role_call
        (write_calls (fst (clone_server_user_slash env d user user_token origem_id destino_id))) = [] \<and>
      filter is_roles_fetch_report
        (followups (fst (clone_server_user_slash env d user user_token origem_id destino_id))) =
        [MsgRolesFetchFailed (status_code response)] \<and>
      write_calls (fst (clone_server_user_slash env d user user_token origem_id destino_id)) =
        write_calls (fst (clone_channels_user env d user user_token origem_id []))) \<and>
   (\<forall>e. requests_send env (make_request ''GET'' (''/guilds/'' @ origem_id @ ''/roles'') user_token None) = Inl e \<or>
        (\<exists>response.
           requests_send env (make_request ''GET'' (''/guilds/'' @ origem_id @ ''/roles'') user_token None) = Inr response \<and>
           status_code response = 200 \<and> json_roles env (body response) = Inl e) \<longrightarrow>
      clone_server_user_slash env d user user_token origem_id destino_id =
        ([Defer False, Followup (MsgStart origem_id (g_name g)) False,
          HttpRequest (make_request ''GET'' (''/guilds/'' @ origem_id @ ''/roles'') user_token None)]
         @ error_report e, d) \<and>
      http_requests (fst (clone_server_user_slash env d user user_token origem_id destino_id)) =
        [make_request ''GET'' (''/guilds/'' @ origem_id @ ''/roles'') user_token None] \<and>
      write_calls (fst (clone_server_user_slash env d user user_token origem_id destino_id)) = [] \<and>
      (\<exists>m. followups (fst (clone_server_user_slash env d user user_token origem_id destino_id)) =
             [MsgStart origem_id (g_name g), m] \<and>
           (m = MsgInvalidId (exc_text e) \<or> m = MsgUnexpected (exc_text e))))"
proof -
  let ?rq = "make_request ''GET'' (''/guilds/'' @ origem_id @ ''/roles'') user_token None"
  let ?crq = "make_request ''GET'' (''/guilds/'' @ origem_id @ ''/channels'') user_token None"
  let ?run = "clone_server_user_slash env d user user_token origem_id destino_id"
  have raising:
    "?run = ([Defer False, Followup (MsgStart origem_id (g_name g)) False, HttpRequest ?rq]
             @ error_report e, d) \<and>
     http_requests (fst ?run) = [?rq] \<and>
     write_calls (fst ?run) = [] \<and>
     (\<exists>m. followups (fst ?run) = [MsgStart origem_id (g_name g), m] \<and>
          (m = MsgInvalidId (exc_text e) \<or> m = MsgUnexpected (exc_text e)))"
    if a: "requests_send env ?rq = Inl e \<or>
        (\<exists>response. requests_send env ?rq = Inr response \<and>
           status_code response = 200 \<and> json_roles env (body response) = Inl e)" for e
  proof -
    from a have "clone_roles_user env d user user_token origem_id = ([HttpRequest ?rq], d, Inl e)"
      by (auto simp: clone_roles_user_def api_request_def)
    then have t: "?run = ([Defer False, Followup (MsgStart origem_id (g_name g)) False, HttpRequest ?rq]
             @ error_report e, d)"
      using assms by (simp add: clone_server_user_slash_def clone_body_def prepend_def)
    from error_report_once[of e] obtain m where
      m: "followups (error_report e) = [m]"
        "m = MsgInvalidId (exc_text e) \<or> m = MsgUnexpected (exc_text e)"
      by blast
    have h: "http_requests (fst ?run) = [?rq]"
      unfolding t by (simp add: http_requests_append error_report_quiet)
    have w: "write_calls (fst ?run) = []"
      unfolding t by (simp add: write_calls_append error_report_quiet)
    have f: "followups (fst ?run) = [MsgStart origem_id (g_name g), m]"
      unfolding t by (simp add: followups_append m(1))
    from t h w f m(2) show ?thesis by blast
  qed
  have status:
    "(\<exists>rest. fst ?run =
          [Defer False, Followup (MsgStart origem_id (g_name g)) False, HttpRequest ?rq,
           Followup (MsgRolesFetchFailed (status_code response)) False, HttpRequest ?crq] @ rest) \<and>
     clone_roles_user env d user user_token origem_id =
        ([HttpRequest ?rq, Followup (MsgRolesFetchFailed (status_code response)) False], d, Inr []) \<and>
     filter is_role_call (write_calls (fst ?run)) = [] \<and>
     filter is_roles_fetch_report (followups (fst ?run)) =
        [MsgRolesFetchFailed (status_code response)] \<and>
     write_calls (fst ?run) =
        write_calls (fst (clone_channels_user env d user user_token origem_id []))"
    if a: "requests_send env ?rq = Inr response \<and> status_code response \<noteq> 200"
    for response :: http_response
  proof -
    let ?failed = "Followup (MsgRolesFetchFailed (status_code response)) False"
    from a have r: "clone_roles_user env d user user_token origem_id =
        ([HttpRequest ?rq, ?failed], d, Inr [])"
      by (simp add: clone_roles_user_def api_request_def)
    obtain ev2 d2 r2 where c: "clone_channels_user env d user user_token origem_id [] = (ev2, d2, r2)"
      by (cases "clone_channels_user env d user user_token origem_id []")
    from channel_phase_head[of env d user user_token origem_id "[]"] c obtain rest2 where
      h: "ev2 = HttpRequest ?crq # rest2" by auto
    from channel_phase_no_role_call[of env d user user_token origem_id "[]"] c have
      nr: "filter is_role_call (write_calls ev2) = []" by simp
    from channel_phase_no_roles_report[of env d user user_token origem_id "[]"] c have
      nf: "filter is_roles_fetch_report (followups ev2) = []" by simp
    have t: "fst ?run =
        [Defer False, Followup (MsgStart origem_id (g_name g)) False, HttpRequest ?rq, ?failed] @ ev2 @
        (case r2 of Inl e \<Rightarrow> error_report e
         | Inr u \<Rightarrow> [Followup (MsgCloneDone origem_id (g_name g)) False])"
      using assms r c
      by (cases r2) (simp_all add: clone_server_user_slash_def clone_body_def prepend_def)
    have 1: "\<exists>rest. fst ?run =
          [Defer False, Followup (MsgStart origem_id (g_name g)) False, HttpRequest ?rq, ?failed,
           HttpRequest ?crq] @ rest"
      unfolding t h by simp
    have 2: "filter is_role_call (write_calls (fst ?run)) = []"
      unfolding t using nr
      by (cases r2) (simp_all add: write_calls_append error_report_quiet)
    have 3: "filter is_roles_fetch_report (followups (fst ?run)) =
        [MsgRolesFetchFailed (status_code response)]"
      unfolding t using nf
      by (cases r2) (simp_all add: followups_append error_report_quiet)
    have 4: "write_calls (fst ?run) =
        write_calls (fst (clone_channels_user env d user user_token origem_id []))"
      unfolding t c
      by (cases r2) (simp_all add: write_calls_append error_report_quiet)
    from 1 r 2 3 4 show ?thesis by blast
  qed
  from raising status show ?thesis by blast
qed

lemma demo_roles_fetch_403:
  "requests_send (demo_env 403) (make_request ''GET'' (''/guilds/'' @ ''1'' @ ''/roles'') ''tok'' None)
     = Inr \<lparr>status_code = 403, body = ''roles''\<rparr>"
  by (simp add: demo_env_def make_request_def)

lemma demo_dest:
  "get_guild (demo_env st) 2 = Some \<lparr>g_name = ''Dest'', me_administrator = True\<rparr>"
  by (simp add: demo_env_def)

text \<open>
  Claim C1 as stated fails: with the role request answered 403 and the channel request
  answered 200, the command goes on to fetch the channels, creates a category and two
  channels on the destination, and reports completion.
\<close>

theorem clone_continues_after_role_fetch_failure:
  "clone_server_user_slash (demo_env 403) 0 ''u'' ''tok'' ''1'' ''2'' =
     ([Defer False,
       Followup (MsgStart ''1'' ''Dest'') False,
       HttpRequest (make_request ''GET'' ''/guilds/1/roles'' ''tok'' None),
       Followup (MsgRolesFetchFailed 403) False,
       HttpRequest (make_request ''GET'' ''/guilds/1/channels'' ''tok'' None),
       Followup (MsgCopyingChannels 4) False,
       Write (CreateCategory \<lparr>cat_name = ''General'', cat_overwrites = [], cat_reason_user = ''u''\<rparr>),
       Sleep 1,
       Write (CreateTextChannel \<lparr>ch_name = ''chat'', ch_overwrites = [], ch_category = Some 0,
                ch_reason_user = ''u'', ch_topic = None, ch_slowmode_delay = None, ch_nsfw = False\<rparr>),
       Sleep 1,
       Print (LogParentId ''abc''),
       Write (CreateVoiceChannel \<lparr>ch_name = ''voice'', ch_overwrites = [], ch_category = None,
                ch_reason_user = ''u'', ch_user_limit = None, ch_bitrate = None\<rparr>),
       Sleep 1,
       Print (LogParentId ''abc''),
       Sleep 1,
       Followup MsgChannelsCopied False,
       Followup (MsgCloneDone ''1'' ''Dest'') False],
      3)"
proof -
  have r: "clone_roles_user (demo_env 403) 0 ''u'' ''tok'' ''1'' =
      ([HttpRequest (make_request ''GET'' ''/guilds/1/roles'' ''tok'' None),
        Followup (MsgRolesFetchFailed 403) False], 0, Inr [])"
    using demo_roles_fetch_403 by (simp add: clone_roles_user_def api_request_def)
  show ?thesis
    by (simp add: clone_server_user_slash_def clone_body_def demo_ints demo_dest r
          demo_channels_run prepend_def)
qed

theorem role_fetch_failure_ends_role_phase_only_witness:
  "clone_roles_user (demo_env 403) 0 ''u'' ''tok'' ''1'' =
     ([HttpRequest (make_request ''GET'' (''/guilds/'' @ ''1'' @ ''/roles'') ''tok'' None),
       Followup (MsgRolesFetchFailed 403) False], 0, Inr []) \<and>
   filter is_role_call
     (write_calls (fst (clone_server_user_slash (demo_env 403) 0 ''u'' ''tok'' ''1'' ''2''))) = [] \<and>
   filter is_roles_fetch_report
     (followups (fst (clone_server_user_slash (demo_env 403) 0 ''u'' ''tok'' ''1'' ''2''))) =
     [MsgRolesFetchFailed 403] \<and>
   write_calls (fst (clone_server_user_slash (demo_env 403) 0 ''u'' ''tok'' ''1'' ''2'')) =
     write_calls (fst (clone_channels_user (demo_env 403) 0 ''u'' ''tok'' ''1'' [])) \<and>
   clone_server_user_slash demo_env_down 0 ''u'' ''tok'' ''1'' ''2'' =
     ([Defer False, Followup (MsgStart ''1'' ''Dest'') False,
       HttpRequest (make_request ''GET'' (''/guilds/'' @ ''1'' @ ''/roles'') ''tok'' None),
       Print (LogCloneError ''ConnectionError''),
       Followup (MsgUnexpected ''ConnectionError'') False], 0) \<and>
   followups (fst (clone_server_user_slash demo_env_down 0 ''u'' ''tok'' ''1'' ''2'')) =
     [MsgStart ''1'' ''Dest'', MsgUnexpected ''ConnectionError''] \<and>
   write_calls (fst (clone_server_user_slash demo_env_down 0 ''u'' ''tok'' ''1'' ''2'')) = []"
proof -
  have m: "me_administrator \<lparr>g_name = ''Dest'', me_administrator = True\<rparr>" by simp
  note t = role_fetch_failure_ends_role_phase_only[OF demo_ints(4) demo_dest m,
      of 403 "''1''" "''tok''" 0 "''u''"]
  from t demo_roles_fetch_403 have a:
    "clone_roles_user (demo_env 403) 0 ''u'' ''tok'' ''1'' =
     ([HttpRequest (make_request ''GET'' (''/guilds/'' @ ''1'' @ ''/roles'') ''tok'' None),
       Followup (MsgRolesFetchFailed 403) False], 0, Inr []) \<and>
   filter is_role_call
     (write_calls (fst (clone_server_user_slash (demo_env 403) 0 ''u'' ''tok'' ''1'' ''2''))) = [] \<and>
   filter is_roles_fetch_report
     (followups (fst (clone_server_user_slash (demo_env 403) 0 ''u'' ''tok'' ''1'' ''2''))) =
     [MsgRolesFetchFailed 403] \<and>
   write_calls (fst (clone_server_user_slash (demo_env 403) 0 ''u'' ''tok'' ''1'' ''2'')) =
     write_calls (fst (clone_channels_user (demo_env 403) 0 ''u'' ''tok'' ''1'' []))"
    by fastforce
  have g: "get_guild demo_env_down 2 = Some \<lparr>g_name = ''Dest'', me_administrator = True\<rparr>"
    by (simp add: demo_env_down_def demo_env_def)
  have down: "requests_send demo_env_down
      (make_request ''GET'' (''/guilds/'' @ ''1'' @ ''/roles'') ''tok'' None) =
      Inl (OtherError ''ConnectionError'')"
    by (simp add: demo_env_down_def)
  note u = role_fetch_failure_ends_role_phase_only[OF demo_ints(4) g m,
      of "''1''" "''tok''" 0 "''u''"]
  from u down have b:
    "clone_server_user_slash demo_env_down 0 ''u'' ''tok'' ''1'' ''2'' =
      ([Defer False, Followup (MsgStart ''1'' ''Dest'') False,
        HttpRequest (make_request ''GET'' (''/guilds/'' @ ''1'' @ ''/roles'') ''tok'' None)]
       @ error_report (OtherError ''ConnectionError''), 0) \<and>
     write_calls (fst (clone_server_user_slash demo_env_down 0 ''u'' ''tok'' ''1'' ''2'')) = []"
    by fastforce
  then have c: "followups (fst (clone_server_user_slash demo_env_down 0 ''u'' ''tok'' ''1'' ''2'')) =
     [MsgStart ''1'' ''Dest'', MsgUnexpected ''ConnectionError'']"
    by (simp add: error_report_def)
  from b have b1: "clone_server_user_slash demo_env_down 0 ''u'' ''tok'' ''1'' ''2'' =
     ([Defer False, Followup (MsgStart ''1'' ''Dest'') False,
       HttpRequest (make_request ''GET'' (''/guilds/'' @ ''1'' @ ''/roles'') ''tok'' None),
       Print (LogCloneError ''ConnectionError''),
       Followup (MsgUnexpected ''ConnectionError'') False], 0)"
    by (simp add: error_report_def)
  from b have b2: "write_calls (fst (clone_server_user_slash demo_env_down 0 ''u'' ''tok'' ''1'' ''2'')) = []"
    by (rule conjunct2)
  from a b1 c b2 show ?thesis by blast
qed

section \<open>Verification: the module top level\<close>

text \<open>
  Claim C2. Whatever the token, running the module's statements in order stops at line
  20 with \<open>NameError\<close> for \<open>bot\<close>: the only statement that binds \<open>bot\<close> is the one
  at line 94. Nothing has been done by then: no command is registered and the bot is
  not run.
\<close>

theorem module_stops_at_bot_run:
  "exec_module python_builtins (bot_limpeza_module token) = ([], Inl (20, NameError ''bot'')) \<and>
   map st_line (filter (\<lambda>s. ''bot'' \<in> set (st_binds s)) (bot_limpeza_module token)) = [94]"
  by (simp add: bot_limpeza_module_def python_builtins_def)

theorem module_stops_at_bot_run_witness:
  "exec_module python_builtins (bot_limpeza_module (Some ''secret'')) =
     ([], Inl (20, NameError ''bot'')) \<and>
   fst (exec_module python_builtins (bot_limpeza_module None)) = []"
  using module_stops_at_bot_run[of "Some ''secret''"] module_stops_at_bot_run[of None]
  by simp

section \<open>Verification: the preset store\<close>

text \<open>
  Claim C9. \<open>load_presets\<close> returns what \<open>json.loads\<close> makes of a non-empty text it
  accepts; it returns the empty mapping when the file is missing, when it is empty
  and when \<open>json.loads\<close> raises; and in every state of the file, an unreadable one
  included, it returns a value and raises nothing.
\<close>

theorem load_presets_total:
  "(\<forall>c v. pf = Content c \<and> c \<noteq> [] \<and> json_loads c = Inr v \<longrightarrow>
       snd (load_presets json_loads pf) = Inr v) \<and>
   (pf = Missing \<or> pf = Content [] \<or> (\<exists>c e. pf = Content c \<and> json_loads c = Inl e) \<longrightarrow>
       snd (load_presets json_loads pf) = Inr (JObject [])) \<and>
   (\<exists>v. snd (load_presets json_loads pf) = Inr v)"
proof (intro conjI allI impI)
  fix c v assume "pf = Content c \<and> c \<noteq> [] \<and> json_loads c = Inr v"
  then show "snd (load_presets json_loads pf) = Inr v"
    by (simp add: load_presets_def read_presets_def)
next
  assume a: "pf = Missing \<or> pf = Content [] \<or> (\<exists>c e. pf = Content c \<and> json_loads c = Inl e)"
  show "snd (load_presets json_loads pf) = Inr (JObject [])"
  proof (cases pf)
    case Missing
    then show ?thesis by (simp add: load_presets_def)
  next
    case (Unreadable e)
    with a show ?thesis by simp
  next
    case (Content c)
    with a have "c = [] \<or> (\<exists>e. json_loads c = Inl e)" by auto
    then show ?thesis
    proof
      assume "c = []"
      with Content show ?thesis by (simp add: load_presets_def read_presets_def)
    next
      assume "\<exists>e. json_loads c = Inl e"
      then obtain e where e: "json_loads c = Inl e" by blast
      show ?thesis using Content e
        by (cases e) (simp_all add: load_presets_def read_presets_def)
    qed
  qed
next
  show "\<exists>v. snd (load_presets json_loads pf) = Inr v"
  proof (cases "read_presets json_loads pf")
    case (Inl e)
    then show ?thesis by (cases e) (simp_all add: load_presets_def)
  next
    case (Inr v)
    then show ?thesis by (simp add: load_presets_def)
  qed
qed

theorem load_presets_total_witness:
  "snd (load_presets (\<lambda>s. if s = ''P'' then Inr (JObject [(''staff'', JList [])])
                          else Inl (JSONDecodeError ''Expecting value''))
         (Content ''P'')) = Inr (JObject [(''staff'', JList [])]) \<and>
   snd (load_presets (\<lambda>s. if s = ''P'' then Inr (JObject [(''staff'', JList [])])
                          else Inl (JSONDecodeError ''Expecting value''))
         (Content ''{oops'')) = Inr (JObject []) \<and>
   snd (load_presets (\<lambda>s. if s = ''P'' then Inr (JObject [(''staff'', JList [])])
                          else Inl (JSONDecodeError ''Expecting value''))
         Missing) = Inr (JObject [])"
proof -
  let ?j = "\<lambda>s. if s = ''P'' then Inr (JObject [(''staff'', JList [])])
                 else Inl (JSONDecodeError ''Expecting value'')"
  have a: "Content ''P'' = Content ''P'' \<and> ''P'' \<noteq> [] \<and> ?j ''P'' = Inr (JObject [(''staff'', JList [])])"
    by simp
  have b: "Content ''{oops'' = Missing \<or> Content ''{oops'' = Content [] \<or>
      (\<exists>c e. Content ''{oops'' = Content c \<and> ?j c = Inl e)"
    by simp
  from load_presets_total[of "Content ''P''" ?j] a
  have 1: "snd (load_presets ?j (Content ''P'')) = Inr (JObject [(''staff'', JList [])])" by blast
  from load_presets_total[of "Content ''{oops''" ?j] b
  have 2: "snd (load_presets ?j (Content ''{oops'')) = Inr (JObject [])" by blast
  from load_presets_total[of Missing ?j]
  have 3: "snd (load_presets ?j Missing) = Inr (JObject [])" by blast
  from 1 2 3 show ?thesis by blast
qed

section \<open>Verification: /criar\_cargos\<close>

lemma create_named_roles_no_edit:
  "filter is_edit_positions (fst (create_named_roles env g user created failed names)) = []"
proof (induction names arbitrary: g created failed)
  case Nil
  show ?case by simp
next
  case (Cons name names)
  obtain out g' where c: "create_role env g name user = (out, g')"
    by (cases "create_role env g name user")
  show ?case
  proof (cases out)
    case (RoleCreated r)
    obtain ev x where rec: "create_named_roles env g' user (created @ [r]) failed names = (ev, x)"
      by (cases "create_named_roles env g' user (created @ [r]) failed names")
    from Cons[of g' "created @ [r]" failed] rec have "filter is_edit_positions ev = []" by simp
    with c RoleCreated rec show ?thesis by simp
  next
    case RoleForbidden
    with c show ?thesis by simp
  next
    case (RoleError m)
    obtain ev x where rec:
      "create_named_roles env g' user created (failed @ [FailError name m]) names = (ev, x)"
      by (cases "create_named_roles env g' user created (failed @ [FailError name m]) names")
    from Cons[of g' created "failed @ [FailError name m]"] rec
    have "filter is_edit_positions ev = []" by simp
    with c RoleError rec show ?thesis by simp
  qed
qed

lemma nome_undefined:
  "load_name criar_cargos_locals limpeza_globals ''nome'' = Inl (NameError ''nome'')"
  by (simp add: load_name_def criar_cargos_locals_def limpeza_globals_def python_builtins_def
        bot_limpeza_module_def)

lemma reorder_body_fails:
  "reorder_body env g user created =
     (case index_of (top_role env g) (guild_roles env g) of
        None \<Rightarrow> ([], g, created, Inl (ValueError ''not in list''))
      | Some i \<Rightarrow> ([], g, rev created, Inl (NameError ''nome'')))"
  by (simp add: reorder_body_def nome_undefined Let_def split: option.splits)

text \<open>
  Claim C10. When the creation loop of \<open>/criar_cargos\<close> has created at least one
  role, the reordering step fails: the command ends with the message that lists the
  created roles, records a reordering failure and warns that reordering failed, and
  its trace has no \<open>edit_role_positions\<close> call. When the bot's top role is in the
  guild's role list, as \<open>index\<close> expects, the recorded failure is the \<open>NameError\<close>
  for \<open>nome\<close>.
\<close>

theorem criar_cargos_reorder_always_fails:
  assumes "create_named_roles env g user [] [] (parse_role_names lista_cargos) = (ev1, g1, created, failed)"
    and "created \<noteq> []"
  shows "\<exists>e names.
      criar_cargos_slash env (Some g) user lista_cargos =
        (LDefer True # ev1 @ [LFollowup (MsgCreated names (failed @ [ReorderError e]) True) False],
         Some g1) \<and>
      (index_of (top_role env g1) (guild_roles env g1) \<noteq> None \<longrightarrow>
         e = NameError ''nome'' \<and> names = map role_name (rev created)) \<and>
      filter is_edit_positions (fst (criar_cargos_slash env (Some g) user lista_cargos)) = []"
proof -
  have ne: "parse_role_names lista_cargos \<noteq> []"
  proof
    assume "parse_role_names lista_cargos = []"
    with assms(1) have "created = []" by simp
    with assms(2) show False by simp
  qed
  from create_named_roles_no_edit[of env g user "[]" "[]" "parse_role_names lista_cargos"] assms(1)
  have q: "filter is_edit_positions ev1 = []" by simp
  show ?thesis
  proof (cases "index_of (top_role env g1) (guild_roles env g1)")
    case None
    have r: "criar_cargos_slash env (Some g) user lista_cargos =
        (LDefer True # ev1 @
           [LFollowup (MsgCreated (map role_name created)
                         (failed @ [ReorderError (ValueError ''not in list'')]) True) False],
         Some g1)"
      using assms ne None by (simp add: criar_cargos_slash_def reorder_body_fails)
    show ?thesis
      by (rule exI[of _ "ValueError ''not in list''"], rule exI[of _ "map role_name created"])
         (simp add: r None q)
  next
    case (Some i)
    have r: "criar_cargos_slash env (Some g) user lista_cargos =
        (LDefer True # ev1 @
           [LFollowup (MsgCreated (map role_name (rev created))
                         (failed @ [ReorderError (NameError ''nome'')]) True) False],
         Some g1)"
      using assms ne Some by (simp add: criar_cargos_slash_def reorder_body_fails)
    show ?thesis
      by (rule exI[of _ "NameError ''nome''"], rule exI[of _ "map role_name (rev created)"])
         (simp add: r q)
  qed
qed

lemma demo_parse: "parse_role_names ''Admin, Mod'' = [''Admin'', ''Mod'']"
  by (simp add: parse_role_names_def py_strip_def py_isspace_def)

lemma demo_create:
  "create_named_roles demo_guild 0 ''u'' [] [] [''Admin'', ''Mod''] =
     ([LCreateRole ''Admin'' ''u'', LCreateRole ''Mod'' ''u''], 2,
      [\<lparr>role_id = 10, role_name = ''Admin''\<rparr>, \<lparr>role_id = 11, role_name = ''Mod''\<rparr>], [])"
  by (simp add: demo_guild_def)

theorem criar_cargos_reorder_always_fails_witness:
  "criar_cargos_slash demo_guild (Some 0) ''u'' ''Admin, Mod'' =
     ([LDefer True, LCreateRole ''Admin'' ''u'', LCreateRole ''Mod'' ''u'',
       LFollowup (MsgCreated [''Mod'', ''Admin''] [ReorderError (NameError ''nome'')] True) False],
      Some 2)"
proof -
  have c: "create_named_roles demo_guild 0 ''u'' [] [] (parse_role_names ''Admin, Mod'') =
     ([LCreateRole ''Admin'' ''u'', LCreateRole ''Mod'' ''u''], 2,
      [\<lparr>role_id = 10, role_name = ''Admin''\<rparr>, \<lparr>role_id = 11, role_name = ''Mod''\<rparr>], [])"
    unfolding demo_parse by (rule demo_create)
  have n: "[\<lparr>role_id = 10, role_name = ''Admin''\<rparr>, \<lparr>role_id = 11, role_name = ''Mod''\<rparr>] \<noteq> []"
    by simp
  have i: "index_of (top_role demo_guild 2) (guild_roles demo_guild 2) \<noteq> None"
    by (simp add: demo_guild_def upt_rec)
  from criar_cargos_reorder_always_fails[OF c n] i show ?thesis by auto
qed

section \<open>Verification: an identifier that is a digit and no integer\<close>

lemma superscript_two_facts:
  "py_isdigit superscript_two" "py_int superscript_two = None"
  by (simp_all add: superscript_two_def py_text_defs)

text \<open>
  Claim C6 fails on the code for an identifier that \<open>isdigit\<close> lets through and
  \<open>int\<close> does not read. A role-scoped entry with the identifier U+00B2, absent from
  the role mapping, is not omitted: \<open>int\<close> raises \<open>ValueError\<close> out of the mapper.
  Both passes call the mapper outside their \<open>try\<close>, so in the run below, whose only
  channel is a category with that overwrite, the command stops after the roles are
  created and reports an invalid identifier; no category is created.
\<close>

theorem map_overwrites_raises_on_superscript_id:
  "py_isdigit superscript_two \<and> py_int superscript_two = None \<and>
   map_overwrites [(5, 1)]
     [\<lparr>ow_type = 0, ow_id = superscript_two, ow_allow = None, ow_deny = None\<rparr>] =
     ([], Inl (ValueError superscript_two)) \<and>
   clone_server_user_slash demo_env_bad 0 ''u'' ''tok'' ''1'' ''2'' =
     ([Defer False,
       Followup (MsgStart ''1'' ''Dest'') False,
       HttpRequest (make_request ''GET'' ''/guilds/1/roles'' ''tok'' None),
       Followup (MsgCopyingRoles 2) False,
       Write (CreateRole \<lparr>rk_name = ''Low'', rk_permissions = 8, rk_color = 0, rk_hoist = False,
                          rk_mentionable = False, rk_reason_user = ''u''\<rparr>),
       Sleep 1,
       Write (CreateRole \<lparr>rk_name = ''Mod'', rk_permissions = 8, rk_color = 0, rk_hoist = False,
                          rk_mentionable = False, rk_reason_user = ''u''\<rparr>),
       Sleep 1,
       Followup MsgRolesCopied False,
       HttpRequest (make_request ''GET'' ''/guilds/1/channels'' ''tok'' None),
       Followup (MsgCopyingChannels 1) False,
       Followup (MsgInvalidId superscript_two) True],
      2)"
proof -
  have m: "map_overwrites [(5, 1)]
     [\<lparr>ow_type = 0, ow_id = superscript_two, ow_allow = None, ow_deny = None\<rparr>] =
     ([], Inl (ValueError superscript_two))"
    by (simp add: map_overwrites_def superscript_two_facts)
  have r: "clone_roles_user demo_env_bad 0 ''u'' ''tok'' ''1'' =
     ([HttpRequest (make_request ''GET'' ''/guilds/1/roles'' ''tok'' None),
       Followup (MsgCopyingRoles 2) False,
       Write (CreateRole \<lparr>rk_name = ''Low'', rk_permissions = 8, rk_color = 0, rk_hoist = False,
                          rk_mentionable = False, rk_reason_user = ''u''\<rparr>),
       Sleep 1,
       Write (CreateRole \<lparr>rk_name = ''Mod'', rk_permissions = 8, rk_color = 0, rk_hoist = False,
                          rk_mentionable = False, rk_reason_user = ''u''\<rparr>),
       Sleep 1,
       Followup MsgRolesCopied False],
      2, Inr [(3, 0), (1, 1)])"
    by (simp add: clone_roles_user_def api_request_def demo_env_bad_def demo_defs roles_to_copy_def
          py_text_defs prepend_def make_role_kwargs_def is_managed_def is_everyone_def
          get_position_def)
  have mo: "map_overwrites [(3, 0), (1, Suc 0)]
     [\<lparr>ow_type = 0, ow_id = superscript_two, ow_allow = None, ow_deny = None\<rparr>] =
     ([], Inl (ValueError superscript_two))"
    by (simp add: map_overwrites_def superscript_two_facts)
  have c: "clone_channels_user demo_env_bad 2 ''u'' ''tok'' ''1'' [(3, 0), (1, Suc 0)] =
     ([HttpRequest (make_request ''GET'' ''/guilds/1/channels'' ''tok'' None),
       Followup (MsgCopyingChannels 1) False], 2, Inl (ValueError superscript_two))"
    by (simp add: clone_channels_user_def api_request_def demo_env_bad_def demo_env_def
          make_request_def DISCORD_API_BASE_def channels_sorted_def demo_bad_category_def
          demo_channel_def demo_ints get_overwrites_def mo prepend_def)
  have g: "get_guild demo_env_bad 2 = Some \<lparr>g_name = ''Dest'', me_administrator = True\<rparr>"
    by (simp add: demo_env_bad_def demo_env_def)
  have t: "clone_server_user_slash demo_env_bad 0 ''u'' ''tok'' ''1'' ''2'' =
     ([Defer False,
       Followup (MsgStart ''1'' ''Dest'') False,
       HttpRequest (make_request ''GET'' ''/guilds/1/roles'' ''tok'' None),
       Followup (MsgCopyingRoles 2) False,
       Write (CreateRole \<lparr>rk_name = ''Low'', rk_permissions = 8, rk_color = 0, rk_hoist = False,
                          rk_mentionable = False, rk_reason_user = ''u''\<rparr>),
       Sleep 1,
       Write (CreateRole \<lparr>rk_name = ''Mod'', rk_permissions = 8, rk_color = 0, rk_hoist = False,
                          rk_mentionable = False, rk_reason_user = ''u''\<rparr>),
       Sleep 1,
       Followup MsgRolesCopied False,
       HttpRequest (make_request ''GET'' ''/guilds/1/channels'' ''tok'' None),
       Followup (MsgCopyingChannels 1) False,
       Followup (MsgInvalidId superscript_two) True],
      2)"
    by (simp add: clone_server_user_slash_def clone_body_def demo_ints g r c prepend_def
          error_report_def)
  from superscript_two_facts m t show ?thesis by blast
qed

end
